theory Spec2Isabelle
  imports Main
begin

section \<open>Values of the host language\<close>

text \<open>
  A string is a list of characters; \<open>length\<close>, \<open>take\<close> and \<open>@\<close> stand for
  JavaScript's \<open>.length\<close>, \<open>.substring(0, n)\<close> and \<open>+\<close>. A thrown value is an
  \<open>Error\<close> object, of which the code reads \<open>name\<close> and \<open>message\<close>: every
  \<open>throw\<close> of \<open>app.js\<close> throws \<open>new Error(...)\<close>, and the fetch library and the
  engine reject with \<open>Error\<close> instances. A call that may throw returns
  \<open>js_error + 'a\<close>, \<open>Inl\<close> being the throw.
\<close>

record js_error =
  err_name :: string
  err_message :: string

definition Error :: "string \<Rightarrow> js_error" where
  "Error m = \<lparr>err_name = ''Error'', err_message = m\<rparr>"

definition TypeError :: "string \<Rightarrow> js_error" where
  "TypeError m = \<lparr>err_name = ''TypeError'', err_message = m\<rparr>"

datatype json =
    JNull
  | JBool bool
  | JNum int
  | JStr string
  | JArr "json list"
  | JObj "(string \<times> json) list"

text \<open>\<open>s.includes(p)\<close> on strings: \<open>p\<close> occurs in \<open>s\<close> as a contiguous run.\<close>

fun startsWith :: "string \<Rightarrow> string \<Rightarrow> bool" where
  "startsWith s [] = True"
| "startsWith [] (d # p) = False"
| "startsWith (c # s) (d # p) = (c = d \<and> startsWith s p)"

fun str_includes :: "string \<Rightarrow> string \<Rightarrow> bool" where
  "str_includes [] p = (p = [])"
| "str_includes (c # s) p = (startsWith (c # s) p \<or> str_includes s p)"

section \<open>The response of one fetch attempt\<close>

text \<open>
  \<open>text_result\<close> and \<open>json_result\<close> are what \<open>response.text()\<close> and
  \<open>response.json()\<close> give when they are the first read of the body;
  \<open>text_after_json\<close> is what \<open>response.text()\<close> gives after \<open>response.json()\<close> has
  thrown. \<open>response.ok\<close> is the fetch library's getter: the status is in 200..299.
\<close>

record response =
  status :: int
  statusText :: string
  text_result :: "js_error + string"
  json_result :: "js_error + json"
  text_after_json :: "js_error + string"

definition ok :: "response \<Rightarrow> bool" where
  "ok r \<longleftrightarrow> 200 \<le> status r \<and> status r < 300"

section \<open>Configuration and observable effects\<close>

text \<open>\<open>CONFIG.langflow\<close>: each field is the integer \<open>parseInt\<close> read from the environment.\<close>

record config =
  timeout :: int
  retries :: int
  retryDelay :: int

record action =
  action_label :: string
  action_description :: string
  action_identifier :: string

record check_update =
  owner :: string
  repo :: string
  check_run_id :: nat
  status_field :: string
  conclusion :: "string option"
  title :: string
  summary :: string
  output_text :: "json option"
  actions :: "action list"

text \<open>
  The effects a run performs, in the order it performs them: \<open>Fetch n\<close> is the call of
  \<open>fetch\<close> made by attempt \<open>n\<close>, \<open>Sleep d\<close> is \<open>sleep(CONFIG.langflow.retryDelay)\<close>
  with the delay requested, \<open>Jitter\<close> is \<open>sleep(Math.random() * 3000 + 2000)\<close>,
  \<open>Checks_update\<close> is a call of \<open>octokit.rest.checks.update\<close> and \<open>Create_comment\<close>
  a call of \<open>octokit.rest.issues.createComment\<close> with the issue number and the body.
\<close>

datatype event =
    Fetch nat
  | Sleep int
  | Jitter
  | Checks_update check_update
  | Create_comment nat string

fun is_Fetch :: "event \<Rightarrow> bool" where
  "is_Fetch (Fetch n) = True"
| "is_Fetch e = False"

fun delay_of :: "event \<Rightarrow> int" where
  "delay_of (Sleep d) = d"
| "delay_of e = 0"

definition fetch_calls :: "event list \<Rightarrow> nat" where
  "fetch_calls evs = length (filter is_Fetch evs)"

definition requested_delay :: "event list \<Rightarrow> int" where
  "requested_delay evs = sum_list (map delay_of evs)"

section \<open>fetchWithRetry\<close>

text \<open>
  The \<open>for\<close> loop of \<open>fetchWithRetry\<close>, from \<open>attempt\<close> on, with the effects so far in
  \<open>log\<close>. \<open>fetch n\<close> is the outcome of the \<open>fetch\<close> call of attempt \<open>n\<close>: a response,
  or a throw (a network error, or the \<open>AbortError\<close> of the timeout). Falling out of the
  loop returns \<open>undefined\<close>, here \<open>None\<close>.
\<close>

function fetchWithRetry_loop ::
  "config \<Rightarrow> (nat \<Rightarrow> js_error + response) \<Rightarrow> int \<Rightarrow> nat \<Rightarrow> event list
    \<Rightarrow> (js_error + response option) \<times> event list" where
  "fetchWithRetry_loop cfg fetch n attempt log =
     (if int attempt \<le> n then
        (case fetch attempt of
           Inr response \<Rightarrow>
             if ok response then (Inr (Some response), log @ [Fetch attempt])
             else if status response \<ge> 500 \<and> int attempt < n then
               fetchWithRetry_loop cfg fetch n (attempt + 1)
                 (log @ [Fetch attempt, Sleep (retryDelay cfg)])
             else (Inr (Some response), log @ [Fetch attempt])
         | Inl err \<Rightarrow>
             if int attempt = n then (Inl err, log @ [Fetch attempt])
             else fetchWithRetry_loop cfg fetch n (attempt + 1)
                    (log @ [Fetch attempt, Sleep (retryDelay cfg)]))
      else (Inr None, log))"
  by pat_completeness auto
termination
  by (relation "measure (\<lambda>(cfg, fetch, n, attempt, log). nat (n + 1 - int attempt))") auto

definition fetchWithRetry ::
  "config \<Rightarrow> (nat \<Rightarrow> js_error + response) \<Rightarrow> int
    \<Rightarrow> (js_error + response option) \<times> event list" where
  "fetchWithRetry cfg fetch n = fetchWithRetry_loop cfg fetch n 1 []"

section \<open>Reading a parsed JSON value\<close>

text \<open>
  A value the extraction code holds is a JSON value or \<open>undefined\<close> (\<open>None\<close>).
  A \<open>JObj\<close> lists the properties of the parsed object, each key once. Numbers are
  integers here: the code only tests a number for being truthy.

  The model does not define three operations of the host language and takes them as
  the parameter \<open>host\<close>: \<open>gt0 v\<close> is \<open>v > 0\<close> for a JSON value (with its
  conversions to a number), \<open>to_String v\<close> is the string a template literal puts in
  for a value that is not a string, \<open>seconds t\<close> is the string for \<open>t / 1000\<close>.
\<close>

record host =
  gt0 :: "json \<Rightarrow> bool"
  to_String :: "json \<Rightarrow> string"
  seconds :: "int \<Rightarrow> string"

definition and_then :: "js_error + 'a \<Rightarrow> ('a \<Rightarrow> js_error + 'b) \<Rightarrow> js_error + 'b" where
  "and_then r f = (case r of Inl e \<Rightarrow> Inl e | Inr v \<Rightarrow> f v)"

fun truthy :: "json option \<Rightarrow> bool" where
  "truthy None = False"
| "truthy (Some JNull) = False"
| "truthy (Some (JBool b)) = b"
| "truthy (Some (JNum n)) = (n \<noteq> 0)"
| "truthy (Some (JStr s)) = (s \<noteq> [])"
| "truthy (Some (JArr xs)) = True"
| "truthy (Some (JObj kvs)) = True"

definition cannot_read :: "string \<Rightarrow> string \<Rightarrow> js_error" where
  "cannot_read what k =
     TypeError (''Cannot read properties of '' @ what @ '' (reading '' @ [CHR 0x27] @ k @ [CHR 0x27] @ '')'')"

text \<open>
  \<open>v.k\<close> for the keys the code reads (\<open>outputs\<close>, \<open>results\<close>, \<open>message\<close>,
  \<open>data\<close>, \<open>text\<close>, \<open>result\<close>): none of them is a property of an array, a string,
  a number or a boolean.
\<close>

fun read_prop :: "json option \<Rightarrow> string \<Rightarrow> js_error + json option" where
  "read_prop None k = Inl (cannot_read ''undefined'' k)"
| "read_prop (Some JNull) k = Inl (cannot_read ''null'' k)"
| "read_prop (Some (JObj kvs)) k = Inr (map_of kvs k)"
| "read_prop (Some v) k = Inr None"

text \<open>\<open>v.length > 0\<close>.\<close>

fun length_gt0 :: "host \<Rightarrow> json option \<Rightarrow> js_error + bool" where
  "length_gt0 h None = Inl (cannot_read ''undefined'' ''length'')"
| "length_gt0 h (Some JNull) = Inl (cannot_read ''null'' ''length'')"
| "length_gt0 h (Some (JArr xs)) = Inr (xs \<noteq> [])"
| "length_gt0 h (Some (JStr s)) = Inr (s \<noteq> [])"
| "length_gt0 h (Some (JObj kvs)) =
     Inr (case map_of kvs ''length'' of None \<Rightarrow> False | Some v \<Rightarrow> gt0 h v)"
| "length_gt0 h (Some v) = Inr False"

text \<open>\<open>v[0]\<close>.\<close>

fun index0 :: "json option \<Rightarrow> js_error + json option" where
  "index0 None = Inl (cannot_read ''undefined'' ''0'')"
| "index0 (Some JNull) = Inl (cannot_read ''null'' ''0'')"
| "index0 (Some (JArr xs)) = Inr (case xs of [] \<Rightarrow> None | x # rest \<Rightarrow> Some x)"
| "index0 (Some (JStr s)) = Inr (case s of [] \<Rightarrow> None | c # rest \<Rightarrow> Some (JStr [c]))"
| "index0 (Some (JObj kvs)) = Inr (map_of kvs ''0'')"
| "index0 (Some v) = Inr None"

text \<open>\<open>v || d\<close>.\<close>

fun or_else :: "json option \<Rightarrow> json \<Rightarrow> json" where
  "or_else None d = d"
| "or_else (Some v) d = (if truthy (Some v) then v else d)"

section \<open>triggerLangflow: extracting the message\<close>

definition default_message :: string where
  "default_message = ''Analysis completed successfully''"

text \<open>Lines 938 to 946: the nested \<open>outputs\<close> shape.\<close>

definition outputs_shape :: "host \<Rightarrow> json \<Rightarrow> json \<Rightarrow> js_error + json" where
  "outputs_shape h result message =
     and_then (read_prop (Some result) ''outputs'') (\<lambda>outputs.
     if \<not> truthy outputs then Inr message else
     and_then (length_gt0 h outputs) (\<lambda>nonempty.
     if \<not> nonempty then Inr message else
     and_then (index0 outputs) (\<lambda>output.
     and_then (read_prop output ''outputs'') (\<lambda>inner.
     if \<not> truthy inner then Inr message else
     and_then (length_gt0 h inner) (\<lambda>nonempty'.
     if \<not> nonempty' then Inr message else
     and_then (index0 inner) (\<lambda>innerOutput.
     and_then (read_prop innerOutput ''results'') (\<lambda>results.
     if \<not> truthy results then Inr message else
     and_then (read_prop results ''message'') (\<lambda>msg.
     if \<not> truthy msg then Inr message else
     and_then (read_prop msg ''data'') (\<lambda>dat.
     if \<not> truthy dat then Inr message else
     and_then (read_prop dat ''text'') (\<lambda>txt.
     Inr (or_else txt (JStr ''Analysis completed''))))))))))))"

text \<open>Lines 949 to 957: the flat \<open>result\<close> field.\<close>

definition result_shape :: "json \<Rightarrow> json \<Rightarrow> js_error + json" where
  "result_shape result message =
     (if message \<noteq> JStr default_message then Inr message else
      and_then (read_prop (Some result) ''result'') (\<lambda>r.
      if \<not> truthy r then Inr message else
      (case r of
         Some (JStr s) \<Rightarrow> Inr (JStr s)
       | _ \<Rightarrow>
         and_then (read_prop r ''text'') (\<lambda>txt.
         if truthy txt then Inr (or_else txt message) else
         and_then (read_prop r ''message'') (\<lambda>msg.
         if truthy msg then Inr (or_else msg message) else Inr message)))))"

text \<open>Lines 960 to 962: the flat \<open>data.text\<close> field.\<close>

definition data_shape :: "json \<Rightarrow> json \<Rightarrow> js_error + json" where
  "data_shape result message =
     (if message \<noteq> JStr default_message then Inr message else
      and_then (read_prop (Some result) ''data'') (\<lambda>dat.
      if \<not> truthy dat then Inr message else
      and_then (read_prop dat ''text'') (\<lambda>txt.
      if truthy txt then Inr (or_else txt message) else Inr message)))"

text \<open>
  Lines 935 to 967. A throw inside the \<open>try\<close> is caught there and \<open>message\<close> keeps
  the value it had: each of the three steps assigns last, after its reads.
\<close>

definition extract_message :: "host \<Rightarrow> json \<Rightarrow> json" where
  "extract_message h result =
     (let message = JStr default_message in
      case outputs_shape h result message of
        Inl extractError \<Rightarrow> message
      | Inr message1 \<Rightarrow>
         (case result_shape result message1 of
            Inl extractError \<Rightarrow> message1
          | Inr message2 \<Rightarrow>
             (case data_shape result message2 of
                Inl extractError \<Rightarrow> message2
              | Inr message3 \<Rightarrow> message3)))"

section \<open>triggerLangflow: the two clamps on the message\<close>

text \<open>
  In the fixed texts of the source a character outside ASCII is spelled by the bytes of
  its UTF-8 encoding; no test of the code looks inside these texts.
\<close>

definition nl :: string where
  "nl = [CHR 0x0A]"

definition robot :: string where
  "robot = [CHR 0xF0, CHR 0x9F, CHR 0xA4, CHR 0x96]"

definition check_mark :: string where
  "check_mark = [CHR 0xE2, CHR 0x9C, CHR 0x85]"

definition generic_summary :: string where
  "generic_summary =
     ''## '' @ robot @ '' AI Analysis Results'' @ nl @ nl @
     ''**PR Review Completed**'' @ nl @ nl @
     ''The AI analysis has been processed successfully. The review covers:'' @ nl @ nl @
     check_mark @ '' **Code Quality Assessment**'' @ nl @
     check_mark @ '' **Security Review** '' @ nl @
     check_mark @ '' **Best Practices Check**'' @ nl @
     check_mark @ '' **Performance Analysis**'' @ nl @ nl @
     ''*Detailed analysis results have been processed by the AI system.*''"

definition truncation_marker :: string where
  "truncation_marker = nl @ nl @ ''*[Message truncated due to length]*''"

definition not_a_function :: "string \<Rightarrow> js_error" where
  "not_a_function f = TypeError (f @ '' is not a function'')"

text \<open>
  Lines 969 to 988, by the kind of value \<open>message\<close> holds. A string has \<open>includes\<close>,
  \<open>length\<close> and \<open>substring\<close>. An array has \<open>includes\<close> (membership) and
  \<open>length\<close> but no \<open>substring\<close>. Any other value has no \<open>includes\<close> to call, and
  the call throws.
\<close>

definition truncate_message :: "string \<Rightarrow> json" where
  "truncate_message message =
     JStr (if length message > 65000
           then take 65000 message @ truncation_marker else message)"

fun clamp_message :: "json \<Rightarrow> js_error + json" where
  "clamp_message (JStr s) =
     Inr (truncate_message
            (if str_includes s ''PR #'' \<and> str_includes s ''not found''
             then generic_summary else s))"
| "clamp_message (JArr xs) =
     (if JStr ''PR #'' \<in> set xs \<and> JStr ''not found'' \<in> set xs
      then Inr (truncate_message generic_summary)
      else if length xs > 65000 then Inl (not_a_function ''message.substring'')
      else Inr (JArr xs))"
| "clamp_message JNull = Inl (cannot_read ''null'' ''includes'')"
| "clamp_message v = Inl (not_a_function ''message.includes'')"

section \<open>triggerLangflow\<close>

text \<open>The part of \<open>process.env\<close> the code reads: a variable is a string or is not set.\<close>

record env =
  LANGFLOW_ENDPOINT :: "string option"
  LANGFLOW_API_KEY :: "string option"
  LANGFLOW_REVIEW_FLOW_ID :: "string option"
  LANGFLOW_MERGE_CHECK_FLOW_ID :: "string option"

text \<open>\<open>!v\<close> for a string that may be \<open>undefined\<close>.\<close>

fun unset :: "string option \<Rightarrow> bool" where
  "unset None = True"
| "unset (Some v) = (v = [])"

fun string_of :: "string option \<Rightarrow> string" where
  "string_of None = ''undefined''"
| "string_of (Some v) = v"

text \<open>What \<open>triggerLangflow\<close> returns: one of its two object shapes.\<close>

datatype flow_result =
    Success (message: json) (data: json)
  | Failure (error: string) (originalError: string)

text \<open>The decimal digits of a status code, as a template literal prints it.\<close>

function decimal :: "nat \<Rightarrow> string" where
  "decimal n = (if n < 10 then [char_of (48 + n)]
                else decimal (n div 10) @ [char_of (48 + n mod 10)])"
  by pat_completeness auto
termination
  by (relation "measure id") auto

definition number_text :: "int \<Rightarrow> string" where
  "number_text i = (if i < 0 then ''-'' @ decimal (nat (- i)) else decimal (nat i))"

text \<open>Lines 884 to 914.\<close>

definition status_message :: "string \<Rightarrow> response \<Rightarrow> string" where
  "status_message flowId response =
     (if status response = 400 then
        ''Bad request to Langflow API. Please check the data format.''
      else if status response = 401 then
        ''Unauthorized. Please check your Langflow API key.''
      else if status response = 403 then
        ''Forbidden. Your API key may not have access to this flow.''
      else if status response = 404 then
        ''Flow not found. Please check if flow ID '' @ [CHR 0x27] @ flowId @ [CHR 0x27] @ '' exists.''
      else if status response = 429 then
        ''Too many requests. Langflow API rate limit exceeded.''
      else if status response = 500 then
        ''Internal server error in Langflow. Please try again later.''
      else if status response = 502 then
        ''Bad gateway. Langflow service may be temporarily unavailable.''
      else if status response = 503 then
        ''Service unavailable. Langflow is temporarily down.''
      else if status response = 504 then
        ''Gateway timeout. Langflow is taking too long to respond.''
      else ''Langflow API error: '' @ number_text (status response) @ '' '' @ statusText response)"

text \<open>Lines 874 to 921: the error thrown for a response that is not \<open>ok\<close>.\<close>

definition error_of_response :: "string \<Rightarrow> response \<Rightarrow> js_error" where
  "error_of_response flowId response =
     (let errorText = (case text_result response of Inl textError \<Rightarrow> [] | Inr t \<Rightarrow> t);
          errorMessage = status_message flowId response
      in Error (if errorText \<noteq> []
                then errorMessage @ '' Details: '' @ take 200 errorText
                else errorMessage))"

text \<open>Lines 874 to 997, from the response \<open>fetchWithRetry\<close> returned.\<close>

definition read_response :: "host \<Rightarrow> string \<Rightarrow> response \<Rightarrow> js_error + flow_result" where
  "read_response h flowId response =
     (if \<not> ok response then Inl (error_of_response flowId response)
      else
        (case json_result response of
           Inl jsonError \<Rightarrow>
             (case text_after_json response of
                Inl textError \<Rightarrow> Inl textError
              | Inr responseText \<Rightarrow> Inl (Error ''Invalid JSON response from Langflow API''))
         | Inr result \<Rightarrow>
             and_then (clamp_message (extract_message h result)) (\<lambda>message.
             Inr (Success message result))))"

text \<open>
  The \<open>try\<close> block of \<open>triggerLangflow\<close>, with the effects it performs. The request it
  builds only reaches the remote service, whose answers \<open>fetch\<close> are arbitrary here, so
  the request is not part of the model.
\<close>

definition triggerLangflow_try ::
  "env \<Rightarrow> config \<Rightarrow> host \<Rightarrow> (nat \<Rightarrow> js_error + response) \<Rightarrow> string option
    \<Rightarrow> (js_error + flow_result) \<times> event list" where
  "triggerLangflow_try E cfg h fetch flowId =
     (if unset (LANGFLOW_ENDPOINT E) then
        (Inl (Error ''LANGFLOW_ENDPOINT environment variable is not set''), [])
      else if unset (LANGFLOW_API_KEY E) then
        (Inl (Error ''LANGFLOW_API_KEY environment variable is not set''), [])
      else if unset flowId then
        (Inl (Error ''Flow ID is required but not provided''), [])
      else
        (case fetchWithRetry cfg fetch (retries cfg) of
           (Inl err, evs) \<Rightarrow> (Inl err, Jitter # evs)
         | (Inr None, evs) \<Rightarrow> (Inl (cannot_read ''undefined'' ''status''), Jitter # evs)
         | (Inr (Some response), evs) \<Rightarrow>
             (read_response h (string_of flowId) response, Jitter # evs)))"

text \<open>Lines 1007 to 1020.\<close>

definition friendly_message :: "js_error \<Rightarrow> string" where
  "friendly_message err =
     (if err_name err = ''AbortError'' \<or> str_includes (err_message err) ''timeout'' then
        ''The AI analysis timed out. This usually happens when the service is overloaded. Please try again in a few minutes.''
      else if str_includes (err_message err) ''ENOTFOUND''
            \<or> str_includes (err_message err) ''ECONNREFUSED'' then
        ''Cannot connect to the AI service. Please check if the Langflow endpoint is correct and accessible.''
      else if str_includes (err_message err) ''ECONNRESET''
            \<or> str_includes (err_message err) ''socket hang up'' then
        ''Connection to the AI service was interrupted. Please try again.''
      else if str_includes (err_message err) ''401'' then
        ''Authentication failed. Please check the API key configuration.''
      else if str_includes (err_message err) ''404'' then
        ''The specified AI flow was not found. Please check the flow configuration.''
      else err_message err)"

text \<open>The \<open>catch\<close> block of \<open>triggerLangflow\<close>.\<close>

definition triggerLangflow_catch :: "js_error \<Rightarrow> flow_result" where
  "triggerLangflow_catch err = Failure (friendly_message err) (err_message err)"

definition triggerLangflow ::
  "env \<Rightarrow> config \<Rightarrow> host \<Rightarrow> (nat \<Rightarrow> js_error + response) \<Rightarrow> string option
    \<Rightarrow> flow_result \<times> event list" where
  "triggerLangflow E cfg h fetch flowId =
     (case triggerLangflow_try E cfg h fetch flowId of
        (Inl err, evs) \<Rightarrow> (triggerLangflow_catch err, evs)
      | (Inr result, evs) \<Rightarrow> (result, evs))"

section \<open>The GitHub side\<close>

text \<open>
  Of the webhook payload the handlers read the repository, the check run and the
  numbers of the pull requests listed in it (no list and an empty list take the same
  branch). \<open>github\<close> gives the outcome of each call to the GitHub client. A call whose
  data only goes into the request to the workflow returns \<open>unit\<close>. \<open>getOctokit\<close>
  returns a client only after testing that it has \<open>rest\<close>, \<open>rest.checks\<close> and
  \<open>rest.pulls\<close> (lines 230, 288 and 322), so the same test in the handler passes and
  a client that was returned has what the handlers call.
\<close>

record payload =
  repository_owner :: string
  repository_name :: string
  check_run :: nat
  head_sha :: string
  pull_requests :: "nat list"

record github =
  getOctokit :: "js_error + unit"
  pulls_list :: "js_error + nat list"
  pulls_get :: "js_error + unit"
  pulls_listFiles :: "js_error + unit"
  issues_listComments :: "js_error + unit"
  checks_update :: "check_update \<Rightarrow> js_error + unit"
  issues_createComment :: "nat \<Rightarrow> string \<Rightarrow> js_error + unit"

definition arrows :: string where
  "arrows = [CHR 0xF0, CHR 0x9F, CHR 0x94, CHR 0x84]"

definition rocket :: string where
  "rocket = [CHR 0xF0, CHR 0x9F, CHR 0x9A, CHR 0x80]"

definition cross_mark :: string where
  "cross_mark = [CHR 0xE2, CHR 0x9D, CHR 0x8C]"

definition warning_sign :: string where
  "warning_sign = [CHR 0xE2, CHR 0x9A, CHR 0xA0, CHR 0xEF, CHR 0xB8, CHR 0x8F]"

definition stopwatch :: string where
  "stopwatch = [CHR 0xE2, CHR 0x8F, CHR 0xB1, CHR 0xEF, CHR 0xB8, CHR 0x8F]"

definition bullet :: string where
  "bullet = [CHR 0xE2, CHR 0x80, CHR 0xA2]"

definition dquote :: string where
  "dquote = [CHR 0x22]"

text \<open>A value inside a template literal.\<close>

fun interpolate :: "host \<Rightarrow> json \<Rightarrow> string" where
  "interpolate h (JStr s) = s"
| "interpolate h v = to_String h v"

section \<open>handleReviewRequest\<close>

text \<open>Lines 405 to 415.\<close>

definition review_in_progress :: "config \<Rightarrow> host \<Rightarrow> payload \<Rightarrow> check_update" where
  "review_in_progress cfg h p =
     \<lparr>owner = repository_owner p, repo = repository_name p, check_run_id = check_run p,
      status_field = ''in_progress'', conclusion = None,
      title = arrows @ '' AI Review in Progress'',
      summary = ''Analyzing your code with Langflow agents...'',
      output_text = Some (JStr (stopwatch @ '' This may take up to '' @ seconds h (timeout cfg)
                                 @ '' seconds. Please wait...'')),
      actions = []\<rparr>"

text \<open>Lines 427 to 456.\<close>

definition find_pr_number :: "github \<Rightarrow> payload \<Rightarrow> js_error + nat" where
  "find_pr_number G p =
     (case pull_requests p of
        number # rest \<Rightarrow> Inr number
      | [] \<Rightarrow>
         (case pulls_list G of
            Inl pullError \<Rightarrow>
              Inl (Error (''Cannot find PR for this check run: '' @ err_message pullError))
          | Inr [] \<Rightarrow>
              Inl (Error (''Cannot find PR for this check run: ''
                          @ ''No open pull request found for this check run''))
          | Inr (number # rest) \<Rightarrow> Inr number))"

text \<open>Lines 460 to 487.\<close>

definition get_pr_data :: "github \<Rightarrow> js_error + unit" where
  "get_pr_data G =
     (case and_then (pulls_get G) (\<lambda>pr. pulls_listFiles G) of
        Inl prError \<Rightarrow> Inl (Error (''Failed to retrieve PR data: '' @ err_message prError))
      | Inr files \<Rightarrow> Inr ())"

text \<open>Lines 539 to 557.\<close>

definition review_success_update :: "payload \<Rightarrow> json \<Rightarrow> check_update" where
  "review_success_update p msg =
     \<lparr>owner = repository_owner p, repo = repository_name p, check_run_id = check_run p,
      status_field = ''completed'', conclusion = Some ''neutral'',
      title = check_mark @ '' AI Review Complete'',
      summary = ''Code review completed successfully'',
      output_text = Some (or_else (Some msg) (JStr ''Review analysis completed'')),
      actions = [\<lparr>action_label = rocket @ '' Check Merge Readiness'',
                  action_description = ''Analyze if PR is ready to merge'',
                  action_identifier = ''check_merge''\<rparr>]\<rparr>"

text \<open>Lines 574 to 579.\<close>

definition review_comment :: "host \<Rightarrow> json \<Rightarrow> string" where
  "review_comment h msg =
     ''## '' @ robot @ '' AI Code Review Results'' @ nl @ nl @
     interpolate h (or_else (Some msg) (JStr ''Review completed successfully'')) @ nl @ nl @
     ''---'' @ nl @
     ''*Analysis powered by Langflow AI '' @ bullet @ '' Click '' @ dquote
       @ ''Check Merge Readiness'' @ dquote @ '' above for final assessment*''"

text \<open>Lines 593 to 602: the message of the error thrown for a \<open>Failure\<close>.\<close>

definition review_error_message :: "string \<Rightarrow> string" where
  "review_error_message e =
     (let errorMessage = (if e = [] then ''Langflow request failed'' else e) in
      if str_includes errorMessage ''504'' \<or> str_includes errorMessage ''GATEWAY_TIMEOUT'' then
        ''The AI service is currently experiencing high load. Please try again in a few minutes.''
      else if str_includes errorMessage ''timeout'' \<or> str_includes errorMessage ''ETIMEDOUT'' then
        ''The AI analysis is taking longer than expected. The service may be busy.''
      else if str_includes errorMessage ''500'' \<or> str_includes errorMessage ''503'' then
        ''The AI service is temporarily unavailable. Please try again later.''
      else errorMessage)"

text \<open>Lines 614 to 645: the update the \<open>catch\<close> block sends.\<close>

definition transient :: "string \<Rightarrow> bool" where
  "transient m \<longleftrightarrow>
     str_includes m ''timeout'' \<or> str_includes m ''504''
     \<or> str_includes m ''temporarily unavailable'' \<or> str_includes m ''high load''"

definition review_error_update :: "payload \<Rightarrow> js_error \<Rightarrow> check_update" where
  "review_error_update p err =
     \<lparr>owner = repository_owner p, repo = repository_name p, check_run_id = check_run p,
      status_field = ''completed'',
      conclusion = Some (if transient (err_message err) then ''neutral'' else ''failure''),
      title = (if transient (err_message err) then warning_sign @ '' AI Review Unavailable''
               else cross_mark @ '' AI Review Failed''),
      summary = (if transient (err_message err) then ''The AI service is currently unavailable''
                 else ''There was an error during the review process''),
      output_text = Some (JStr (err_message err @ nl @ nl
                      @ ''*You can try running the review again by clicking the '' @ dquote
                      @ ''Review PR'' @ dquote @ '' button.*'')),
      actions = [\<lparr>action_label = arrows @ '' Retry Review'',
                  action_description = ''Try the AI review again'',
                  action_identifier = ''review_pr''\<rparr>]\<rparr>"

text \<open>
  Lines 403 to 605: the outer \<open>try\<close> block once the client is there. The calls to
  \<open>checks.update\<close> and \<open>issues.createComment\<close> sit in \<open>try\<close> blocks of their own
  that only log, so their outcome changes nothing: they are effects.
\<close>

definition handleReviewRequest_try ::
  "env \<Rightarrow> config \<Rightarrow> host \<Rightarrow> github \<Rightarrow> (nat \<Rightarrow> js_error + response) \<Rightarrow> payload
    \<Rightarrow> (js_error + unit) \<times> event list" where
  "handleReviewRequest_try E cfg h G fetch p =
     (let started = [Checks_update (review_in_progress cfg h p)] in
      case find_pr_number G p of
        Inl err \<Rightarrow> (Inl err, started)
      | Inr prNumber \<Rightarrow>
         (case get_pr_data G of
            Inl err \<Rightarrow> (Inl err, started)
          | Inr prData \<Rightarrow>
             (case triggerLangflow E cfg h fetch (LANGFLOW_REVIEW_FLOW_ID E) of
                (Success msg dat, evs) \<Rightarrow>
                  (Inr (), started @ evs @
                     [Checks_update (review_success_update p msg),
                      Create_comment prNumber (review_comment h msg)])
              | (Failure e original, evs) \<Rightarrow>
                  (Inl (Error (review_error_message e)), started @ evs))))"

text \<open>
  \<open>handleReviewRequest\<close> returns the error its \<open>catch\<close> block handled, if any, and
  the effects. Without a client the \<open>catch\<close> block only logs.
\<close>

definition handleReviewRequest ::
  "env \<Rightarrow> config \<Rightarrow> host \<Rightarrow> github \<Rightarrow> (nat \<Rightarrow> js_error + response) \<Rightarrow> payload
    \<Rightarrow> js_error option \<times> event list" where
  "handleReviewRequest E cfg h G fetch p =
     (case getOctokit G of
        Inl octokitError \<Rightarrow>
          (Some (Error (''Authentication failed: '' @ err_message octokitError)), [])
      | Inr octokit \<Rightarrow>
         (case handleReviewRequest_try E cfg h G fetch p of
            (Inr done, evs) \<Rightarrow> (None, evs)
          | (Inl err, evs) \<Rightarrow> (Some err, evs @ [Checks_update (review_error_update p err)])))"

section \<open>handleMergeCheck\<close>

text \<open>
  \<open>toLowerCase\<close>: the letters \<open>A\<close> to \<open>Z\<close>, and the capital letters of Latin-1,
  move to their small letters, 32 places up. A character is one code unit of the
  JavaScript string, and the model has the code units below 256.
\<close>

definition lower_char :: "char \<Rightarrow> char" where
  "lower_char c =
     (let n = (of_char c :: nat) in
      if (65 \<le> n \<and> n \<le> 90) \<or> (192 \<le> n \<and> n \<le> 222 \<and> n \<noteq> 215)
      then char_of (n + 32) else c)"

definition toLowerCase :: "string \<Rightarrow> string" where
  "toLowerCase s = map lower_char s"

text \<open>Lines 693 to 702.\<close>

definition merge_in_progress :: "payload \<Rightarrow> check_update" where
  "merge_in_progress p =
     \<lparr>owner = repository_owner p, repo = repository_name p, check_run_id = check_run p,
      status_field = ''in_progress'', conclusion = None,
      title = arrows @ '' Checking Merge Readiness'',
      summary = ''Analyzing PR for merge readiness...'',
      output_text = None,
      actions = []\<rparr>"

text \<open>Lines 668 to 688: here a failed search is not wrapped.\<close>

definition merge_pr_number :: "github \<Rightarrow> payload \<Rightarrow> js_error + nat" where
  "merge_pr_number G p =
     (case pull_requests p of
        number # rest \<Rightarrow> Inr number
      | [] \<Rightarrow>
         (case pulls_list G of
            Inl err \<Rightarrow> Inl err
          | Inr [] \<Rightarrow> Inl (Error ''No open pull request found for this check run'')
          | Inr (number # rest) \<Rightarrow> Inr number))"

text \<open>Lines 750 to 762, for a message that is a string.\<close>

definition merge_success_update :: "payload \<Rightarrow> string \<Rightarrow> check_update" where
  "merge_success_update p m =
     (let isReady = str_includes (toLowerCase m) ''ready'' in
      \<lparr>owner = repository_owner p, repo = repository_name p, check_run_id = check_run p,
       status_field = ''completed'',
       conclusion = Some (if isReady then ''success'' else ''neutral''),
       title = (if isReady then rocket @ '' Ready to Merge!''
                else warning_sign @ '' Not Ready to Merge''),
       summary = (if m = [] then ''Merge readiness analysis completed'' else m),
       output_text = None,
       actions = []\<rparr>)"

text \<open>Lines 769 to 774.\<close>

definition merge_comment :: "string \<Rightarrow> string" where
  "merge_comment m =
     ''## '' @ rocket @ '' Merge Readiness Analysis'' @ nl @ nl @
     (if m = [] then ''Analysis completed'' else m) @ nl @ nl @
     ''---'' @ nl @
     ''*Final assessment by Langflow AI*''"

text \<open>
  Lines 749 to 780: what follows the call of \<open>triggerLangflow\<close>. Only a string has
  \<open>toLowerCase\<close>. Here no call has a \<open>try\<close> block of its own.
\<close>

definition merge_finish ::
  "github \<Rightarrow> payload \<Rightarrow> nat \<Rightarrow> flow_result \<Rightarrow> (js_error + unit) \<times> event list" where
  "merge_finish G p prNumber mergeResult =
     (case mergeResult of
        Success (JStr m) dat \<Rightarrow>
          (let update = merge_success_update p m in
           case checks_update G update of
             Inl err \<Rightarrow> (Inl err, [Checks_update update])
           | Inr updated \<Rightarrow>
              (case issues_createComment G prNumber (merge_comment m) of
                 Inl err \<Rightarrow>
                   (Inl err, [Checks_update update, Create_comment prNumber (merge_comment m)])
               | Inr created \<Rightarrow>
                   (Inr (), [Checks_update update, Create_comment prNumber (merge_comment m)])))
      | Success msg dat \<Rightarrow>
          (Inl (not_a_function ''mergeResult.message.toLowerCase''), [])
      | Failure e original \<Rightarrow>
          (Inl (Error (if e = [] then ''Merge check failed'' else e)), []))"

text \<open>Lines 662 to 780: the \<open>try\<close> block.\<close>

definition handleMergeCheck_try ::
  "env \<Rightarrow> config \<Rightarrow> host \<Rightarrow> github \<Rightarrow> (nat \<Rightarrow> js_error + response) \<Rightarrow> payload
    \<Rightarrow> (js_error + unit) \<times> event list" where
  "handleMergeCheck_try E cfg h G fetch p =
     (case getOctokit G of
        Inl err \<Rightarrow> (Inl err, [])
      | Inr octokit \<Rightarrow>
     (case merge_pr_number G p of
        Inl err \<Rightarrow> (Inl err, [])
      | Inr prNumber \<Rightarrow>
     (let started = [Checks_update (merge_in_progress p)] in
      case checks_update G (merge_in_progress p) of
        Inl err \<Rightarrow> (Inl err, started)
      | Inr updated \<Rightarrow>
     (case and_then (pulls_get G) (\<lambda>pr. issues_listComments G) of
        Inl err \<Rightarrow> (Inl err, started)
      | Inr comments \<Rightarrow>
     (case triggerLangflow E cfg h fetch (LANGFLOW_MERGE_CHECK_FLOW_ID E) of
        (mergeResult, evs) \<Rightarrow>
     (case merge_finish G p prNumber mergeResult of
        (r, evs') \<Rightarrow> (r, started @ evs @ evs')))))))"

text \<open>
  In the \<open>catch\<close> block the name \<open>octokit\<close> is not in scope (it is a \<open>const\<close> of
  the \<open>try\<close> block, line 666), so reading it throws, and the handler ends with that
  error instead of an update of the check run.
\<close>

definition handleMergeCheck ::
  "env \<Rightarrow> config \<Rightarrow> host \<Rightarrow> github \<Rightarrow> (nat \<Rightarrow> js_error + response) \<Rightarrow> payload
    \<Rightarrow> (js_error + unit) \<times> event list" where
  "handleMergeCheck E cfg h G fetch p =
     (case handleMergeCheck_try E cfg h G fetch p of
        (Inr done, evs) \<Rightarrow> (Inr (), evs)
      | (Inl err, evs) \<Rightarrow>
          (Inl \<lparr>err_name = ''ReferenceError'', err_message = ''octokit is not defined''\<rparr>, evs))"

text \<open>The calls of \<open>checks.update\<close> among the effects, in order.\<close>

fun updates :: "event list \<Rightarrow> check_update list" where
  "updates [] = []"
| "updates (Checks_update u # evs) = u # updates evs"
| "updates (e # evs) = updates evs"

section \<open>Sample values and auxiliary notions\<close>

text \<open>The defaults of \<open>CONFIG.langflow\<close> (lines 26 to 28).\<close>

definition default_config :: config where
  "default_config = \<lparr>timeout = 120000, retries = 3, retryDelay = 5000\<rparr>"

text \<open>A response with a given status and body text, the body holding the JSON given.\<close>

definition sample_response :: "int \<Rightarrow> string \<Rightarrow> js_error + json \<Rightarrow> response" where
  "sample_response code body parsed =
     \<lparr>status = code, statusText = [], text_result = Inr body, json_result = parsed,
      text_after_json = Inl (TypeError ''body used already'')\<rparr>"

text \<open>
  A host that is right on numbers and booleans, a configured environment, a GitHub
  side on which every call succeeds, and a payload naming pull request 7.
\<close>

definition sample_host :: host where
  "sample_host =
     \<lparr>gt0 = (\<lambda>v. case v of JNum n \<Rightarrow> 0 < n | JBool b \<Rightarrow> b | _ \<Rightarrow> False),
      to_String = (\<lambda>v. ''[object Object]''),
      seconds = (\<lambda>t. number_text (t div 1000))\<rparr>"

definition sample_env :: env where
  "sample_env =
     \<lparr>LANGFLOW_ENDPOINT = Some ''https://langflow.example'',
      LANGFLOW_API_KEY = Some ''key'',
      LANGFLOW_REVIEW_FLOW_ID = Some ''review-flow'',
      LANGFLOW_MERGE_CHECK_FLOW_ID = Some ''merge-flow''\<rparr>"

definition sample_github :: github where
  "sample_github =
     \<lparr>getOctokit = Inr (), pulls_list = Inr [7], pulls_get = Inr (),
      pulls_listFiles = Inr (), issues_listComments = Inr (),
      checks_update = (\<lambda>u. Inr ()), issues_createComment = (\<lambda>n b. Inr ())\<rparr>"

definition sample_payload :: payload where
  "sample_payload =
     \<lparr>repository_owner = ''octo'', repository_name = ''demo'', check_run = 1,
      head_sha = ''abc'', pull_requests = [7]\<rparr>"

text \<open>A remote service that gives the same response to every attempt.\<close>

definition every_attempt :: "response \<Rightarrow> nat \<Rightarrow> js_error + response" where
  "every_attempt r i = Inr r"

text \<open>
  The effects of the attempts \<open>a\<close> to \<open>k - 1\<close> when each of them is retried: the
  call of \<open>fetch\<close>, then the pause before the next attempt.
\<close>

definition retry_events :: "config \<Rightarrow> nat \<Rightarrow> nat \<Rightarrow> event list" where
  "retry_events cfg a k = concat (map (\<lambda>i. [Fetch i, Sleep (retryDelay cfg)]) [a..<k])"

text \<open>Attempt \<open>i\<close> is followed by another one.\<close>

definition retried :: "(nat \<Rightarrow> js_error + response) \<Rightarrow> int \<Rightarrow> nat \<Rightarrow> bool" where
  "retried fetch n i \<longleftrightarrow> int i < n \<and>
     (case fetch i of Inr r \<Rightarrow> \<not> ok r \<and> 500 \<le> status r | Inl e \<Rightarrow> True)"

section \<open>Properties of fetchWithRetry\<close>

declare fetchWithRetry_loop.simps [simp del]
declare decimal.simps [simp del]

lemma loop_step:
  assumes "retried fetch n i"
  shows "fetchWithRetry_loop cfg fetch n i log =
         fetchWithRetry_loop cfg fetch n (Suc i) (log @ [Fetch i, Sleep (retryDelay cfg)])"
  using assms
  by (subst fetchWithRetry_loop.simps) (auto simp: retried_def split: sum.splits)

lemma loop_steps:
  assumes "a \<le> k" and "\<forall>i. a \<le> i \<and> i < k \<longrightarrow> retried fetch n i"
  shows "fetchWithRetry_loop cfg fetch n a log =
         fetchWithRetry_loop cfg fetch n k (log @ retry_events cfg a k)"
  using assms
proof (induction k rule: dec_induct)
  case base
  show ?case by (simp add: retry_events_def)
next
  case (step k)
  have "fetchWithRetry_loop cfg fetch n a log =
        fetchWithRetry_loop cfg fetch n k (log @ retry_events cfg a k)"
    using step by simp
  also have "\<dots> = fetchWithRetry_loop cfg fetch n (Suc k)
        ((log @ retry_events cfg a k) @ [Fetch k, Sleep (retryDelay cfg)])"
    using step by (intro loop_step) simp
  also have "(log @ retry_events cfg a k) @ [Fetch k, Sleep (retryDelay cfg)] =
        log @ retry_events cfg a (Suc k)"
    using step(1) by (simp add: retry_events_def)
  finally show ?case .
qed

lemma fetch_calls_retry_events: "fetch_calls (retry_events cfg a k) = k - a"
  unfolding fetch_calls_def retry_events_def
  by (induction k) (auto simp: not_less_eq_eq Suc_diff_le)

lemma requested_delay_retry_events:
  "requested_delay (retry_events cfg a k) = int (k - a) * retryDelay cfg"
  unfolding requested_delay_def retry_events_def
  by (induction k) (auto simp: not_less_eq_eq Suc_diff_le algebra_simps)

lemma fetch_calls_append: "fetch_calls (xs @ ys) = fetch_calls xs + fetch_calls ys"
  by (simp add: fetch_calls_def)

lemma requested_delay_append:
  "requested_delay (xs @ ys) = requested_delay xs + requested_delay ys"
  by (simp add: requested_delay_def)

lemma fetch_calls_single: "fetch_calls [Fetch k] = 1"
  by (simp add: fetch_calls_def)

lemma requested_delay_single: "requested_delay [Fetch k] = 0"
  by (simp add: requested_delay_def)

lemma loop_last_returns:
  assumes "int k \<le> n" "fetch k = Inr r" "ok r \<or> status r < 500 \<or> int k = n"
  shows "fetchWithRetry_loop cfg fetch n k log = (Inr (Some r), log @ [Fetch k])"
  using assms by (subst fetchWithRetry_loop.simps) auto

lemma loop_last_throws:
  assumes "int k = n" "fetch k = Inl e"
  shows "fetchWithRetry_loop cfg fetch n k log = (Inl e, log @ [Fetch k])"
  using assms by (subst fetchWithRetry_loop.simps) auto

lemma retry_events_1_3:
  "retry_events cfg (Suc 0) 3 =
     [Fetch (Suc 0), Sleep (retryDelay cfg), Fetch 2, Sleep (retryDelay cfg)]"
  by (simp add: retry_events_def upt_rec numeral_eq_Suc)

lemma updates_append: "updates (xs @ ys) = updates xs @ updates ys"
  by (induction xs rule: updates.induct) auto

lemma updates_retry_events: "updates (retry_events cfg a k) = []"
  unfolding retry_events_def by (induction k) (auto simp: updates_append)

lemma all_5xx_exhausted:
  assumes "1 \<le> n"
    and "\<forall>i. 1 \<le> i \<and> int i \<le> n \<longrightarrow> (\<exists>r. fetch i = Inr r \<and> \<not> ok r \<and> 500 \<le> status r \<and> P r)"
  shows "\<exists>r. fetch (nat n) = Inr r \<and> P r \<and> \<not> ok r
       \<and> fetchWithRetry cfg fetch n = (Inr (Some r), retry_events cfg 1 (nat n) @ [Fetch (nat n)])"
proof -
  have "1 \<le> nat n \<and> int (nat n) \<le> n"
    using assms(1) by simp
  then obtain r where r: "fetch (nat n) = Inr r" "P r" "\<not> ok r"
    using assms(2) by blast
  have "\<forall>i. 1 \<le> i \<and> i < nat n \<longrightarrow> retried fetch n i"
    using assms(2) by (fastforce simp: retried_def)
  then have "fetchWithRetry cfg fetch n =
      fetchWithRetry_loop cfg fetch n (nat n) ([] @ retry_events cfg 1 (nat n))"
    unfolding fetchWithRetry_def using assms(1) by (intro loop_steps) auto
  also have "\<dots> = (Inr (Some r), ([] @ retry_events cfg 1 (nat n)) @ [Fetch (nat n)])"
    using assms(1) r by (intro loop_last_returns) auto
  finally show ?thesis
    using r by auto
qed

text \<open>
  C2. When the first \<open>k - 1\<close> attempts return a 5xx status and attempt \<open>k\<close>, not
  beyond the number of attempts allowed, returns an \<open>ok\<close> (2xx) response,
  \<open>fetchWithRetry\<close> returns that response and has called \<open>fetch\<close> exactly \<open>k\<close>
  times, with a pause after each of the first \<open>k - 1\<close> calls.
\<close>

theorem fetchWithRetry_ok_after_5xx:
  assumes "1 \<le> k" and "int k \<le> n"
    and "\<forall>i. 1 \<le> i \<and> i < k \<longrightarrow> (\<exists>r. fetch i = Inr r \<and> 500 \<le> status r \<and> status r < 600)"
    and "fetch k = Inr resp" and "ok resp"
  shows "fetchWithRetry cfg fetch n = (Inr (Some resp), retry_events cfg 1 k @ [Fetch k])
       \<and> fetch_calls (snd (fetchWithRetry cfg fetch n)) = k"
proof -
  have "\<forall>i. 1 \<le> i \<and> i < k \<longrightarrow> retried fetch n i"
    using assms(2,3) by (fastforce simp: retried_def ok_def)
  then have "fetchWithRetry cfg fetch n =
      fetchWithRetry_loop cfg fetch n k ([] @ retry_events cfg 1 k)"
    unfolding fetchWithRetry_def using assms(1) by (intro loop_steps) auto
  also have "\<dots> = (Inr (Some resp), ([] @ retry_events cfg 1 k) @ [Fetch k])"
    using assms by (intro loop_last_returns) auto
  finally have eq: "fetchWithRetry cfg fetch n =
      (Inr (Some resp), retry_events cfg 1 k @ [Fetch k])"
    by simp
  show ?thesis
    using assms(1) by (simp add: eq fetch_calls_append fetch_calls_retry_events fetch_calls_single)
qed

theorem fetchWithRetry_ok_after_5xx_witness:
  "fetchWithRetry default_config
     (\<lambda>i. if i < 3 then Inr (sample_response 503 ''busy'' (Inl (Error ''no JSON'')))
           else Inr (sample_response 200 ''{}'' (Inr (JObj [])))) 3
   = (Inr (Some (sample_response 200 ''{}'' (Inr (JObj [])))),
      [Fetch 1, Sleep 5000, Fetch 2, Sleep 5000, Fetch 3])
   \<and> fetch_calls (snd (fetchWithRetry default_config
     (\<lambda>i. if i < 3 then Inr (sample_response 503 ''busy'' (Inl (Error ''no JSON'')))
           else Inr (sample_response 200 ''{}'' (Inr (JObj [])))) 3)) = 3"
  using fetchWithRetry_ok_after_5xx [of 3 3
     "\<lambda>i. if i < 3 then Inr (sample_response 503 ''busy'' (Inl (Error ''no JSON'')))
           else Inr (sample_response 200 ''{}'' (Inr (JObj [])))"
     "sample_response 200 ''{}'' (Inr (JObj []))" default_config]
  by (simp add: retry_events_1_3 ok_def sample_response_def default_config_def fetch_calls_def)

text \<open>
  C3. When the first attempt returns a 4xx status, \<open>fetchWithRetry\<close> returns that
  response after exactly one call of \<open>fetch\<close> and without a pause, whatever number
  \<open>n \<ge> 1\<close> of attempts is allowed.
\<close>

theorem fetchWithRetry_4xx_returns_at_once:
  assumes "1 \<le> n" and "fetch 1 = Inr resp" and "400 \<le> status resp" and "status resp < 500"
  shows "fetchWithRetry cfg fetch n = (Inr (Some resp), [Fetch 1])
       \<and> fetch_calls (snd (fetchWithRetry cfg fetch n)) = 1"
proof -
  have "fetchWithRetry cfg fetch n = (Inr (Some resp), [] @ [Fetch 1])"
    unfolding fetchWithRetry_def using assms by (intro loop_last_returns) auto
  then show ?thesis by (simp add: fetch_calls_single)
qed

theorem fetchWithRetry_4xx_returns_at_once_witness:
  "fetchWithRetry default_config (\<lambda>i. Inr (sample_response 404 ''no such flow'' (Inr JNull))) 3
   = (Inr (Some (sample_response 404 ''no such flow'' (Inr JNull))), [Fetch 1])
   \<and> fetch_calls (snd (fetchWithRetry default_config
        (\<lambda>i. Inr (sample_response 404 ''no such flow'' (Inr JNull))) 3)) = 1"
  using fetchWithRetry_4xx_returns_at_once [of 3
     "\<lambda>i. Inr (sample_response 404 ''no such flow'' (Inr JNull))"
     "sample_response 404 ''no such flow'' (Inr JNull)" default_config]
  by (simp add: sample_response_def fetch_calls_def)

text \<open>
  C4. When every attempt throws and \<open>n \<ge> 1\<close> attempts are allowed,
  \<open>fetchWithRetry\<close> calls \<open>fetch\<close> exactly \<open>n\<close> times and then throws the error of
  the last attempt. Before each retry it asks for a pause of \<open>retryDelay\<close>, so the
  pauses asked for add up to \<open>(n - 1) * retryDelay\<close>.
\<close>

theorem fetchWithRetry_all_throw:
  assumes "1 \<le> n" and "\<forall>i. 1 \<le> i \<and> int i \<le> n \<longrightarrow> fetch i = Inl (thrown i)"
  shows "fetchWithRetry cfg fetch n =
           (Inl (thrown (nat n)), retry_events cfg 1 (nat n) @ [Fetch (nat n)])
       \<and> fetch_calls (snd (fetchWithRetry cfg fetch n)) = nat n
       \<and> requested_delay (snd (fetchWithRetry cfg fetch n)) = (n - 1) * retryDelay cfg"
proof -
  have "\<forall>i. 1 \<le> i \<and> i < nat n \<longrightarrow> retried fetch n i"
    using assms(2) by (auto simp: retried_def)
  then have "fetchWithRetry cfg fetch n =
      fetchWithRetry_loop cfg fetch n (nat n) ([] @ retry_events cfg 1 (nat n))"
    unfolding fetchWithRetry_def using assms(1) by (intro loop_steps) auto
  also have "\<dots> = (Inl (thrown (nat n)), ([] @ retry_events cfg 1 (nat n)) @ [Fetch (nat n)])"
    using assms by (intro loop_last_throws) auto
  finally have eq: "fetchWithRetry cfg fetch n =
      (Inl (thrown (nat n)), retry_events cfg 1 (nat n) @ [Fetch (nat n)])"
    by simp
  have "int (nat n - 1) = n - 1"
    using assms(1) by simp
  then show ?thesis
    using assms(1)
    by (simp add: eq fetch_calls_append fetch_calls_retry_events fetch_calls_single
        requested_delay_append requested_delay_retry_events requested_delay_single)
qed

theorem fetchWithRetry_all_throw_witness:
  "fetchWithRetry default_config
     (\<lambda>i. Inl \<lparr>err_name = ''AbortError'', err_message = ''The user aborted a request.''\<rparr>) 3
   = (Inl \<lparr>err_name = ''AbortError'', err_message = ''The user aborted a request.''\<rparr>,
      [Fetch 1, Sleep 5000, Fetch 2, Sleep 5000, Fetch 3])
   \<and> fetch_calls (snd (fetchWithRetry default_config
     (\<lambda>i. Inl \<lparr>err_name = ''AbortError'', err_message = ''The user aborted a request.''\<rparr>) 3)) = 3
   \<and> requested_delay (snd (fetchWithRetry default_config
     (\<lambda>i. Inl \<lparr>err_name = ''AbortError'', err_message = ''The user aborted a request.''\<rparr>) 3))
     = 10000"
  using fetchWithRetry_all_throw [of 3
     "\<lambda>i. Inl \<lparr>err_name = ''AbortError'', err_message = ''The user aborted a request.''\<rparr>"
     "\<lambda>i. \<lparr>err_name = ''AbortError'', err_message = ''The user aborted a request.''\<rparr>"
     default_config]
  by (simp add: retry_events_1_3 default_config_def fetch_calls_def requested_delay_def)

text \<open>
  C9. When every attempt returns a 5xx status and none throws, \<open>fetchWithRetry\<close>
  with \<open>n \<ge> 1\<close> attempts allowed does not throw: after \<open>n\<close> calls of \<open>fetch\<close> it
  returns the response of the last attempt, whose status is the only sign that the
  attempts are used up.
\<close>

theorem fetchWithRetry_all_5xx_returns_last:
  assumes "1 \<le> n"
    and "\<forall>i. 1 \<le> i \<and> int i \<le> n \<longrightarrow> (\<exists>r. fetch i = Inr r \<and> 500 \<le> status r \<and> status r < 600)"
  shows "\<exists>r. fetch (nat n) = Inr r \<and> 500 \<le> status r \<and> status r < 600
       \<and> fetchWithRetry cfg fetch n = (Inr (Some r), retry_events cfg 1 (nat n) @ [Fetch (nat n)])
       \<and> fetch_calls (snd (fetchWithRetry cfg fetch n)) = nat n"
proof -
  have "\<forall>i. 1 \<le> i \<and> int i \<le> n \<longrightarrow>
          (\<exists>r. fetch i = Inr r \<and> \<not> ok r \<and> 500 \<le> status r \<and> (500 \<le> status r \<and> status r < 600))"
    using assms(2) by (fastforce simp: ok_def)
  from all_5xx_exhausted [OF assms(1) this, of cfg]
  obtain r where r: "fetch (nat n) = Inr r" "500 \<le> status r" "status r < 600"
    "fetchWithRetry cfg fetch n = (Inr (Some r), retry_events cfg 1 (nat n) @ [Fetch (nat n)])"
    by blast
  show ?thesis
    using assms(1) r
    by (simp add: fetch_calls_append fetch_calls_retry_events fetch_calls_single)
qed

theorem fetchWithRetry_all_5xx_returns_last_witness:
  "fetchWithRetry default_config (\<lambda>i. Inr (sample_response 504 ''late'' (Inr JNull))) 3
   = (Inr (Some (sample_response 504 ''late'' (Inr JNull))),
      [Fetch 1, Sleep 5000, Fetch 2, Sleep 5000, Fetch 3])"
  using fetchWithRetry_all_5xx_returns_last [of 3
     "\<lambda>i. Inr (sample_response 504 ''late'' (Inr JNull))" default_config]
  by (simp add: retry_events_1_3 sample_response_def default_config_def)

section \<open>Properties of triggerLangflow and the handlers\<close>

lemma startsWith_iff: "startsWith s p \<longleftrightarrow> (\<exists>b. s = p @ b)"
  by (induction s p rule: startsWith.induct) auto

lemma str_includes_iff: "str_includes s p \<longleftrightarrow> (\<exists>a b. s = a @ p @ b)"
proof (induction s)
  case Nil
  show ?case by auto
next
  case (Cons c s)
  show ?case
  proof
    assume "str_includes (c # s) p"
    then consider "startsWith (c # s) p" | "str_includes s p" by auto
    then show "\<exists>a b. c # s = a @ p @ b"
    proof cases
      case 1
      then obtain b where "c # s = p @ b" by (auto simp: startsWith_iff)
      then have "c # s = [] @ p @ b" by simp
      then show ?thesis by blast
    next
      case 2
      then obtain a b where "s = a @ p @ b" using Cons.IH by blast
      then have "c # s = (c # a) @ p @ b" by simp
      then show ?thesis by blast
    qed
  next
    assume "\<exists>a b. c # s = a @ p @ b"
    then obtain a b where ab: "c # s = a @ p @ b" by blast
    show "str_includes (c # s) p"
    proof (cases a)
      case Nil
      then have "startsWith (c # s) p" using ab by (auto simp: startsWith_iff)
      then show ?thesis by simp
    next
      case (Cons x a')
      then have "s = a' @ p @ b" using ab by simp
      then have "str_includes s p" using Cons.IH by blast
      then show ?thesis by simp
    qed
  qed
qed

lemma str_includes_append_left: "str_includes s p \<Longrightarrow> str_includes (s @ t) p"
  unfolding str_includes_iff by (metis append.assoc)

lemma str_includes_append_right: "str_includes t p \<Longrightarrow> str_includes (s @ t) p"
  unfolding str_includes_iff by (metis append.assoc)

lemma str_includes_trans: "str_includes s p \<Longrightarrow> str_includes p q \<Longrightarrow> str_includes s q"
  unfolding str_includes_iff by (metis append.assoc)

lemma str_includes_set: "str_includes s p \<Longrightarrow> set p \<subseteq> set s"
  unfolding str_includes_iff by auto

lemma timed_out_not_transient:
  "\<not> transient ''The AI analysis timed out. This usually happens when the service is overloaded. Please try again in a few minutes.''"
  by (simp add: transient_def)

lemma timed_out_kept:
  "review_error_message ''The AI analysis timed out. This usually happens when the service is overloaded. Please try again in a few minutes.''
   = ''The AI analysis timed out. This usually happens when the service is overloaded. Please try again in a few minutes.''"
  by (simp add: review_error_message_def)

lemma gateway_timeout_includes:
  "str_includes ''Gateway timeout. Langflow is taking too long to respond.'' ''timeout''"
  by simp

lemma triggerLangflow_response:
  assumes "\<not> unset (LANGFLOW_ENDPOINT E)" "\<not> unset (LANGFLOW_API_KEY E)" "\<not> unset flowId"
    and "fetchWithRetry cfg fetch (retries cfg) = (Inr (Some r), evs)"
  shows "triggerLangflow E cfg h fetch flowId =
           ((case read_response h (string_of flowId) r of
               Inl err \<Rightarrow> triggerLangflow_catch err | Inr res \<Rightarrow> res), Jitter # evs)"
  using assms by (simp add: triggerLangflow_def triggerLangflow_try_def split: sum.splits)

lemma error_of_504:
  assumes "status r = 504"
  shows "str_includes (err_message (error_of_response fid r)) ''timeout''"
proof -
  have "str_includes (status_message fid r) ''timeout''"
    using assms by (simp add: status_message_def)
  then show ?thesis
    by (simp add: error_of_response_def Error_def Let_def str_includes_append_left)
qed

lemma friendly_timeout:
  assumes "str_includes (err_message e) ''timeout''"
  shows "friendly_message e = ''The AI analysis timed out. This usually happens when the service is overloaded. Please try again in a few minutes.''"
  using assms by (simp add: friendly_message_def)

text \<open>
  C1. A review is requested, the client and the pull request data are there, the
  environment is configured, and every one of the \<open>retries \<ge> 1\<close> attempts returns
  status 504. Then \<open>handleReviewRequest\<close> updates the check run twice, to
  \<open>in_progress\<close> and to \<open>completed\<close>, and the conclusion of the second update is
  \<open>failure\<close>, not \<open>neutral\<close>: \<open>triggerLangflow\<close> has replaced the message of the
  504 by its text for timeouts, in which the handler finds none of the words that
  make it choose \<open>neutral\<close>.
\<close>

theorem review_504_concludes_failure:
  assumes "getOctokit G = Inr ()" and "find_pr_number G p = Inr prNumber"
    and "get_pr_data G = Inr ()"
    and "\<not> unset (LANGFLOW_ENDPOINT E)" and "\<not> unset (LANGFLOW_API_KEY E)"
    and "\<not> unset (LANGFLOW_REVIEW_FLOW_ID E)"
    and "1 \<le> retries cfg"
    and "\<forall>i. 1 \<le> i \<and> int i \<le> retries cfg \<longrightarrow> (\<exists>r. fetch i = Inr r \<and> status r = 504)"
  shows "map status_field (updates (snd (handleReviewRequest E cfg h G fetch p)))
           = [''in_progress'', ''completed'']
       \<and> map conclusion (updates (snd (handleReviewRequest E cfg h G fetch p)))
           = [None, Some ''failure'']"
proof -
  have "\<forall>i. 1 \<le> i \<and> int i \<le> retries cfg \<longrightarrow>
          (\<exists>r. fetch i = Inr r \<and> \<not> ok r \<and> 500 \<le> status r \<and> status r = 504)"
    using assms(8) by (fastforce simp: ok_def)
  from all_5xx_exhausted [OF assms(7) this, of cfg]
  obtain r where r: "status r = 504" "\<not> ok r"
    "fetchWithRetry cfg fetch (retries cfg) =
       (Inr (Some r), retry_events cfg 1 (nat (retries cfg)) @ [Fetch (nat (retries cfg))])"
    by blast
  let ?evs = "retry_events cfg 1 (nat (retries cfg)) @ [Fetch (nat (retries cfg))]"
  let ?slow = "''The AI analysis timed out. This usually happens when the service is overloaded. Please try again in a few minutes.''"
  let ?fid = "string_of (LANGFLOW_REVIEW_FLOW_ID E)"
  have "read_response h ?fid r = Inl (error_of_response ?fid r)"
    using r(2) by (simp add: read_response_def)
  then have "triggerLangflow E cfg h fetch (LANGFLOW_REVIEW_FLOW_ID E) =
      (Failure ?slow (err_message (error_of_response ?fid r)), Jitter # ?evs)"
    using triggerLangflow_response [OF assms(4,5,6) r(3), of h]
      friendly_timeout [OF error_of_504 [OF r(1), of ?fid]]
    by (simp add: triggerLangflow_catch_def)
  then have "handleReviewRequest E cfg h G fetch p =
      (Some (Error ?slow),
       ([Checks_update (review_in_progress cfg h p)] @ Jitter # ?evs)
         @ [Checks_update (review_error_update p (Error ?slow))])"
    using assms(1,2,3) timed_out_kept
    by (simp add: handleReviewRequest_def handleReviewRequest_try_def)
  then show ?thesis
    using timed_out_not_transient
    by (simp add: updates_append updates_retry_events review_in_progress_def
        review_error_update_def Error_def)
qed

theorem review_504_concludes_failure_witness:
  "map conclusion (updates (snd (handleReviewRequest sample_env default_config sample_host
      sample_github (\<lambda>i. Inr (sample_response 504 ''Gateway Time-out'' (Inr JNull)))
      sample_payload)))
   = [None, Some ''failure'']"
  using review_504_concludes_failure [of sample_github sample_payload 7 sample_env
      default_config "\<lambda>i. Inr (sample_response 504 ''Gateway Time-out'' (Inr JNull))"
      sample_host]
  by (simp add: sample_github_def sample_payload_def sample_env_def default_config_def
      sample_response_def find_pr_number_def get_pr_data_def and_then_def)

lemma triggerLangflow_first:
  assumes "\<not> unset (LANGFLOW_ENDPOINT E)" "\<not> unset (LANGFLOW_API_KEY E)" "\<not> unset flowId"
    and "fst (fetchWithRetry cfg fetch (retries cfg)) = Inr (Some r)"
  shows "fst (triggerLangflow E cfg h fetch flowId) =
           (case read_response h (string_of flowId) r of
               Inl err \<Rightarrow> triggerLangflow_catch err | Inr res \<Rightarrow> res)"
  using assms
  by (cases "fetchWithRetry cfg fetch (retries cfg)")
     (simp add: triggerLangflow_def triggerLangflow_try_def split: sum.splits)

lemma triggerLangflow_try_first:
  assumes "\<not> unset (LANGFLOW_ENDPOINT E)" "\<not> unset (LANGFLOW_API_KEY E)" "\<not> unset flowId"
    and "fst (fetchWithRetry cfg fetch (retries cfg)) = Inr (Some r)"
  shows "fst (triggerLangflow_try E cfg h fetch flowId) = read_response h (string_of flowId) r"
  using assms
  by (cases "fetchWithRetry cfg fetch (retries cfg)") (simp add: triggerLangflow_try_def)

lemma fetch_every_attempt:
  "fst (fetchWithRetry default_config (every_attempt (sample_response code body parsed)) 3)
     = Inr (Some (sample_response code body parsed))"
proof (cases "200 \<le> code \<and> code < 300 \<or> code < 500")
  case True
  then show ?thesis
    unfolding fetchWithRetry_def
    by (subst loop_last_returns [where r = "sample_response code body parsed"])
       (auto simp: every_attempt_def ok_def sample_response_def)
next
  case False
  then have "\<forall>i. 1 \<le> i \<and> int i \<le> 3 \<longrightarrow>
     (\<exists>r. every_attempt (sample_response code body parsed) i = Inr r \<and> \<not> ok r \<and> 500 \<le> status r
        \<and> r = sample_response code body parsed)"
    by (auto simp: every_attempt_def ok_def sample_response_def)
  from all_5xx_exhausted [OF _ this, of default_config] show ?thesis
    by auto
qed

lemma triggerLangflow_of_try:
  "fst (triggerLangflow E cfg h fetch flowId) =
     (case fst (triggerLangflow_try E cfg h fetch flowId) of
        Inl err \<Rightarrow> Failure (friendly_message err) (err_message err)
      | Inr res \<Rightarrow> res)"
  by (simp add: triggerLangflow_def triggerLangflow_catch_def split: prod.splits sum.splits)

lemma try_throws_iff:
  "(\<exists>err. fst (triggerLangflow_try E cfg h fetch flowId) = Inl err) \<longleftrightarrow>
     unset (LANGFLOW_ENDPOINT E) \<or> unset (LANGFLOW_API_KEY E) \<or> unset flowId
     \<or> (\<exists>err. fst (fetchWithRetry cfg fetch (retries cfg)) = Inl err)
     \<or> fst (fetchWithRetry cfg fetch (retries cfg)) = Inr None
     \<or> (\<exists>r. fst (fetchWithRetry cfg fetch (retries cfg)) = Inr (Some r)
           \<and> (\<not> ok r \<or> (\<exists>jsonError. json_result r = Inl jsonError)
                \<or> (\<exists>result err. json_result r = Inr result
                      \<and> clamp_message (extract_message h result) = Inl err)))"
proof (cases "unset (LANGFLOW_ENDPOINT E) \<or> unset (LANGFLOW_API_KEY E) \<or> unset flowId")
  case True
  then show ?thesis by (auto simp: triggerLangflow_try_def)
next
  case False
  obtain res evs where f: "fetchWithRetry cfg fetch (retries cfg) = (res, evs)"
    by (cases "fetchWithRetry cfg fetch (retries cfg)")
  show ?thesis
  proof (cases res)
    case (Inl err)
    then show ?thesis using False f by (simp add: triggerLangflow_try_def)
  next
    case (Inr ro)
    show ?thesis
    proof (cases ro)
      case None
      then show ?thesis using False f Inr by (simp add: triggerLangflow_try_def)
    next
      case (Some r)
      have "fst (triggerLangflow_try E cfg h fetch flowId) = read_response h (string_of flowId) r"
        using False f Inr Some by (simp add: triggerLangflow_try_def)
      moreover have "(\<exists>err. read_response h (string_of flowId) r = Inl err) \<longleftrightarrow>
          (\<not> ok r \<or> (\<exists>jsonError. json_result r = Inl jsonError)
                \<or> (\<exists>result err. json_result r = Inr result
                      \<and> clamp_message (extract_message h result) = Inl err))"
        by (auto simp: read_response_def and_then_def split: sum.splits)
      ultimately show ?thesis
        using False f Inr Some by simp
    qed
  qed
qed

text \<open>
  C5. \<open>triggerLangflow\<close> returns a result for every environment, configuration,
  flow id and behaviour of the remote service; its \<open>catch\<close> block reads the name and
  the message of what was thrown and returns. Whatever the \<open>try\<close> block throws comes
  back as a \<open>Failure\<close> holding a message for the user and the message thrown, and
  the result is a \<open>Failure\<close> in exactly these cases: a variable or the flow id is
  not set, \<open>fetchWithRetry\<close> throws (a network error or a timeout at the last
  attempt) or returns nothing (no attempt allowed), the response is not \<open>ok\<close>, the
  body of an \<open>ok\<close> response is not JSON, or the message extracted is of a kind the
  clamps cannot handle.
\<close>

theorem triggerLangflow_never_throws:
  "fst (triggerLangflow E cfg h fetch flowId) =
     (case fst (triggerLangflow_try E cfg h fetch flowId) of
        Inl err \<Rightarrow> Failure (friendly_message err) (err_message err)
      | Inr res \<Rightarrow> res)
   \<and> ((\<exists>u original. fst (triggerLangflow E cfg h fetch flowId) = Failure u original) \<longleftrightarrow>
        unset (LANGFLOW_ENDPOINT E) \<or> unset (LANGFLOW_API_KEY E) \<or> unset flowId
        \<or> (\<exists>err. fst (fetchWithRetry cfg fetch (retries cfg)) = Inl err)
        \<or> fst (fetchWithRetry cfg fetch (retries cfg)) = Inr None
        \<or> (\<exists>r. fst (fetchWithRetry cfg fetch (retries cfg)) = Inr (Some r)
              \<and> (\<not> ok r \<or> (\<exists>jsonError. json_result r = Inl jsonError)
                   \<or> (\<exists>result err. json_result r = Inr result
                         \<and> clamp_message (extract_message h result) = Inl err))))"
proof -
  have success: "\<exists>m d. res = Success m d"
    if "fst (triggerLangflow_try E cfg h fetch flowId) = Inr res" for res
    using that
    by (cases "fetchWithRetry cfg fetch (retries cfg)")
       (auto simp: triggerLangflow_try_def read_response_def and_then_def
             split: if_splits sum.splits option.splits)
  have "(\<exists>u original. fst (triggerLangflow E cfg h fetch flowId) = Failure u original) \<longleftrightarrow>
        (\<exists>err. fst (triggerLangflow_try E cfg h fetch flowId) = Inl err)"
    using success
    by (cases "fst (triggerLangflow_try E cfg h fetch flowId)")
       (auto simp: triggerLangflow_of_try)
  then show ?thesis
    using try_throws_iff [of E cfg h fetch flowId] triggerLangflow_of_try [of E cfg h fetch flowId]
    by simp
qed

theorem triggerLangflow_never_throws_witness:
  "fst (triggerLangflow sample_env default_config sample_host
         (every_attempt (sample_response 200 ''<html>'' (Inl (Error ''Unexpected token''))))
         (Some ''review-flow''))
   = Failure ''body used already'' ''body used already''"
proof -
  have "fst (triggerLangflow_try sample_env default_config sample_host
         (every_attempt (sample_response 200 ''<html>'' (Inl (Error ''Unexpected token''))))
         (Some ''review-flow''))
      = Inl (TypeError ''body used already'')"
    using triggerLangflow_try_first [of sample_env "Some ''review-flow''" default_config
        "every_attempt (sample_response 200 ''<html>'' (Inl (Error ''Unexpected token'')))"
        "sample_response 200 ''<html>'' (Inl (Error ''Unexpected token''))" sample_host]
      fetch_every_attempt [of 200 "''<html>''" "Inl (Error ''Unexpected token'')"]
    by (simp add: sample_env_def default_config_def read_response_def ok_def sample_response_def)
  then show ?thesis
    using triggerLangflow_never_throws [of sample_env default_config sample_host
        "every_attempt (sample_response 200 ''<html>'' (Inl (Error ''Unexpected token'')))"
        "Some ''review-flow''"]
    by (simp add: friendly_message_def TypeError_def)
qed

text \<open>
  C6, as amended. When the response \<open>fetchWithRetry\<close> returns is not \<open>ok\<close>,
  \<open>triggerLangflow\<close> returns a \<open>Failure\<close> whose \<open>originalError\<close> is the
  entry of the status table (400, 401, 403, 404, 429, 500, 502, 503, 504, as listed)
  followed, when the body text could be read and is not empty, by \<open>Details:\<close> and
  the first 200 characters of the body. The message for the user is that same string
  when it holds none of the words by which the \<open>catch\<close> block sorts errors.
\<close>

theorem status_failure_message:
  assumes "\<not> unset (LANGFLOW_ENDPOINT E)" and "\<not> unset (LANGFLOW_API_KEY E)"
    and "\<not> unset flowId"
    and "fst (fetchWithRetry cfg fetch (retries cfg)) = Inr (Some r)" and "\<not> ok r"
    and "body = (case text_result r of Inl textError \<Rightarrow> [] | Inr t \<Rightarrow> t)"
    and "raw = status_message (string_of flowId) r
                @ (if body = [] then [] else '' Details: '' @ take 200 body)"
  shows "(\<exists>u. fst (triggerLangflow E cfg h fetch flowId) = Failure u raw)
       \<and> (\<not> str_includes raw ''timeout'' \<and> \<not> str_includes raw ''ENOTFOUND''
          \<and> \<not> str_includes raw ''ECONNREFUSED'' \<and> \<not> str_includes raw ''ECONNRESET''
          \<and> \<not> str_includes raw ''socket hang up'' \<and> \<not> str_includes raw ''401''
          \<and> \<not> str_includes raw ''404''
          \<longrightarrow> fst (triggerLangflow E cfg h fetch flowId) = Failure raw raw)
       \<and> length (take 200 body) \<le> 200
       \<and> status_message fid (r\<lparr>status := 400\<rparr>)
            = ''Bad request to Langflow API. Please check the data format.''
       \<and> status_message fid (r\<lparr>status := 401\<rparr>)
            = ''Unauthorized. Please check your Langflow API key.''
       \<and> status_message fid (r\<lparr>status := 403\<rparr>)
            = ''Forbidden. Your API key may not have access to this flow.''
       \<and> status_message fid (r\<lparr>status := 404\<rparr>)
            = ''Flow not found. Please check if flow ID '' @ [CHR 0x27] @ fid @ [CHR 0x27]
              @ '' exists.''
       \<and> status_message fid (r\<lparr>status := 429\<rparr>)
            = ''Too many requests. Langflow API rate limit exceeded.''
       \<and> status_message fid (r\<lparr>status := 500\<rparr>)
            = ''Internal server error in Langflow. Please try again later.''
       \<and> status_message fid (r\<lparr>status := 502\<rparr>)
            = ''Bad gateway. Langflow service may be temporarily unavailable.''
       \<and> status_message fid (r\<lparr>status := 503\<rparr>)
            = ''Service unavailable. Langflow is temporarily down.''
       \<and> status_message fid (r\<lparr>status := 504\<rparr>)
            = ''Gateway timeout. Langflow is taking too long to respond.''"
proof -
  have raw: "error_of_response (string_of flowId) r = Error raw"
    using assms(6,7) by (simp add: error_of_response_def Let_def)
  have res: "fst (triggerLangflow E cfg h fetch flowId) = Failure (friendly_message (Error raw)) raw"
    using triggerLangflow_first [OF assms(1-4), of h] assms(5) raw
    by (simp add: read_response_def triggerLangflow_catch_def Error_def)
  have plain: "friendly_message (Error raw) = raw"
    if "\<not> str_includes raw ''timeout''" "\<not> str_includes raw ''ENOTFOUND''"
       "\<not> str_includes raw ''ECONNREFUSED''" "\<not> str_includes raw ''ECONNRESET''"
       "\<not> str_includes raw ''socket hang up''" "\<not> str_includes raw ''401''"
       "\<not> str_includes raw ''404''"
    using that by (simp add: friendly_message_def Error_def)
  have table: "status_message fid (r\<lparr>status := 400\<rparr>)
            = ''Bad request to Langflow API. Please check the data format.''"
    "status_message fid (r\<lparr>status := 401\<rparr>)
            = ''Unauthorized. Please check your Langflow API key.''"
    "status_message fid (r\<lparr>status := 403\<rparr>)
            = ''Forbidden. Your API key may not have access to this flow.''"
    "status_message fid (r\<lparr>status := 404\<rparr>)
            = ''Flow not found. Please check if flow ID '' @ [CHR 0x27] @ fid @ [CHR 0x27]
              @ '' exists.''"
    "status_message fid (r\<lparr>status := 429\<rparr>)
            = ''Too many requests. Langflow API rate limit exceeded.''"
    "status_message fid (r\<lparr>status := 500\<rparr>)
            = ''Internal server error in Langflow. Please try again later.''"
    "status_message fid (r\<lparr>status := 502\<rparr>)
            = ''Bad gateway. Langflow service may be temporarily unavailable.''"
    "status_message fid (r\<lparr>status := 503\<rparr>)
            = ''Service unavailable. Langflow is temporarily down.''"
    "status_message fid (r\<lparr>status := 504\<rparr>)
            = ''Gateway timeout. Langflow is taking too long to respond.''"
    by (simp_all add: status_message_def)
  show ?thesis
    using res plain table by simp
qed

theorem status_failure_message_witness:
  "fst (triggerLangflow sample_env default_config sample_host
          (every_attempt (sample_response 403 ''no access'' (Inr JNull))) (Some ''review-flow''))
   = Failure ''Forbidden. Your API key may not have access to this flow. Details: no access''
       ''Forbidden. Your API key may not have access to this flow. Details: no access''"
  using status_failure_message [of sample_env "Some ''review-flow''" default_config
      "every_attempt (sample_response 403 ''no access'' (Inr JNull))"
      "sample_response 403 ''no access'' (Inr JNull)" "''no access''"
      "''Forbidden. Your API key may not have access to this flow. Details: no access''"
      sample_host]
    fetch_every_attempt [of 403 "''no access''" "Inr JNull"]
  by (simp add: sample_env_def default_config_def ok_def sample_response_def status_message_def)

text \<open>
  C6, as stated, fails at status 504 with an empty body: the message for the user is
  the text for timeouts, not the table entry.
\<close>

theorem status_message_replaced_counterexample:
  "error (fst (triggerLangflow sample_env default_config sample_host
          (every_attempt (sample_response 504 [] (Inr JNull))) (Some ''review-flow'')))
     = ''The AI analysis timed out. This usually happens when the service is overloaded. Please try again in a few minutes.''
   \<and> error (fst (triggerLangflow sample_env default_config sample_host
          (every_attempt (sample_response 504 [] (Inr JNull))) (Some ''review-flow'')))
     \<noteq> ''Gateway timeout. Langflow is taking too long to respond.''"
proof -
  have "fst (triggerLangflow sample_env default_config sample_host
          (every_attempt (sample_response 504 [] (Inr JNull))) (Some ''review-flow''))
        = (case read_response sample_host ''review-flow'' (sample_response 504 [] (Inr JNull)) of
               Inl err \<Rightarrow> triggerLangflow_catch err | Inr res \<Rightarrow> res)"
    using triggerLangflow_first [of sample_env "Some ''review-flow''" default_config
        "every_attempt (sample_response 504 [] (Inr JNull))" "sample_response 504 [] (Inr JNull)"
        sample_host] fetch_every_attempt [of 504 "[]" "Inr JNull"]
    by (simp add: sample_env_def default_config_def)
  then show ?thesis
    by (simp add: read_response_def ok_def sample_response_def error_of_response_def
        status_message_def triggerLangflow_catch_def friendly_message_def Error_def)
qed

lemma extract_flat_result:
  assumes "s \<noteq> []"
  shows "extract_message h (JObj [(''result'', JStr s)]) = JStr s"
  using assms
  by (simp add: extract_message_def outputs_shape_def result_shape_def data_shape_def
      and_then_def Let_def)

text \<open>
  C7. When the body of an \<open>ok\<close> response parses and the message extracted from it
  is a string of length 70000 that does not hold both \<open>PR #\<close> and \<open>not found\<close>,
  \<open>triggerLangflow\<close> returns a \<open>Success\<close> whose message is the first 65000
  characters followed by the truncation marker: its length is 65000 plus the length
  of the marker, and the marker is what follows the first 65000 characters.
\<close>

theorem long_message_truncated:
  assumes "\<not> unset (LANGFLOW_ENDPOINT E)" and "\<not> unset (LANGFLOW_API_KEY E)"
    and "\<not> unset flowId"
    and "fst (fetchWithRetry cfg fetch (retries cfg)) = Inr (Some r)" and "ok r"
    and "json_result r = Inr result" and "extract_message h result = JStr m"
    and "length m = 70000"
    and "\<not> (str_includes m ''PR #'' \<and> str_includes m ''not found'')"
  shows "fst (triggerLangflow E cfg h fetch flowId)
           = Success (JStr (take 65000 m @ truncation_marker)) result
       \<and> length (take 65000 m @ truncation_marker) = 65000 + length truncation_marker
       \<and> drop 65000 (take 65000 m @ truncation_marker) = truncation_marker"
proof -
  have "clamp_message (JStr m) = Inr (JStr (take 65000 m @ truncation_marker))"
    using assms(8,9) by (auto simp: truncate_message_def)
  then have "read_response h (string_of flowId) r
      = Inr (Success (JStr (take 65000 m @ truncation_marker)) result)"
    using assms(5,6,7) by (simp add: read_response_def and_then_def)
  then have "fst (triggerLangflow E cfg h fetch flowId)
      = Success (JStr (take 65000 m @ truncation_marker)) result"
    using triggerLangflow_first [OF assms(1-4), of h] by simp
  then show ?thesis
    using assms(8) by simp
qed

theorem long_message_truncated_witness:
  "fst (triggerLangflow sample_env default_config sample_host
         (every_attempt (sample_response 200 []
            (Inr (JObj [(''result'', JStr (replicate 70000 CHR ''a''))]))))
         (Some ''review-flow''))
   = Success (JStr (replicate 65000 CHR ''a'' @ truncation_marker))
       (JObj [(''result'', JStr (replicate 70000 CHR ''a''))])
   \<and> length (replicate 65000 CHR ''a'' @ truncation_marker) = 65037"
proof -
  have no: "\<not> str_includes (replicate 70000 CHR ''a'') ''PR #''"
    using str_includes_set [of "replicate 70000 CHR ''a''" "''PR #''"] by auto
  have ex: "extract_message sample_host (JObj [(''result'', JStr (replicate 70000 CHR ''a''))])
      = JStr (replicate 70000 CHR ''a'')"
    by (rule extract_flat_result) simp
  have "ok (sample_response 200 [] (Inr (JObj [(''result'', JStr (replicate 70000 CHR ''a''))])))"
    by (simp add: ok_def sample_response_def)
  from long_message_truncated [of sample_env "Some ''review-flow''" default_config
      "every_attempt (sample_response 200 []
            (Inr (JObj [(''result'', JStr (replicate 70000 CHR ''a''))])))"
      "sample_response 200 [] (Inr (JObj [(''result'', JStr (replicate 70000 CHR ''a''))]))"
      "JObj [(''result'', JStr (replicate 70000 CHR ''a''))]" sample_host
      "replicate 70000 CHR ''a''", OF _ _ _ _ this _ ex _ _]
    fetch_every_attempt [of 200 "[]" "Inr (JObj [(''result'', JStr (replicate 70000 CHR ''a''))])"]
    no
  show ?thesis
    by (simp add: sample_env_def default_config_def sample_response_def truncation_marker_def nl_def)
qed

lemma updates_loop:
  "updates (snd (fetchWithRetry_loop cfg fetch n a log)) = updates log"
proof (induction cfg fetch n a log rule: fetchWithRetry_loop.induct)
  case (1 cfg fetch n attempt log)
  show ?case
    using 1
    by (subst fetchWithRetry_loop.simps)
       (auto simp: updates_append split: sum.splits)
qed

lemma updates_triggerLangflow:
  "updates (snd (triggerLangflow E cfg h fetch flowId)) = []"
proof -
  have "updates (snd (fetchWithRetry cfg fetch (retries cfg))) = []"
    using updates_loop [of cfg fetch "retries cfg" 1 "[]"] by (simp add: fetchWithRetry_def)
  then show ?thesis
    by (cases "fetchWithRetry cfg fetch (retries cfg)")
       (auto simp: triggerLangflow_def triggerLangflow_try_def
             split: prod.splits sum.splits option.splits)
qed

lemma first_ok_returns:
  assumes "1 \<le> retries cfg" "fetch 1 = Inr r" "ok r"
  shows "fetchWithRetry cfg fetch (retries cfg) = (Inr (Some r), [Fetch 1])"
  unfolding fetchWithRetry_def
  using loop_last_returns [of 1 "retries cfg" fetch r cfg "[]"] assms by simp

lemma triggerLangflow_flat_result:
  assumes "\<not> unset (LANGFLOW_ENDPOINT E)" "\<not> unset (LANGFLOW_API_KEY E)" "\<not> unset flowId"
    and "1 \<le> retries cfg" and "fetch 1 = Inr r" and "ok r"
    and "json_result r = Inr (JObj [(''result'', JStr s)])"
    and "s \<noteq> []" and "length s \<le> 65000"
    and "\<not> (str_includes s ''PR #'' \<and> str_includes s ''not found'')"
  shows "triggerLangflow E cfg h fetch flowId =
           (Success (JStr s) (JObj [(''result'', JStr s)]), [Jitter, Fetch 1])"
proof -
  have "clamp_message (extract_message h (JObj [(''result'', JStr s)])) = Inr (JStr s)"
    using assms(8,9,10) by (auto simp: extract_flat_result truncate_message_def)
  then have "read_response h (string_of flowId) r
           = Inr (Success (JStr s) (JObj [(''result'', JStr s)]))"
    using assms(6,7) by (simp add: read_response_def and_then_def)
  then show ?thesis
    using triggerLangflow_response [of E flowId cfg fetch r "[Fetch 1]" h]
      first_ok_returns [of cfg fetch r] assms(1-6)
    by simp
qed

text \<open>
  C8, as amended. A review is requested for a check run whose pull request is found
  and whose data GitHub returns, the environment is configured, at least one attempt
  is allowed, and the first attempt returns status 200 with the body
  \<open>{result: "All good"}\<close>. Then the \<open>catch\<close> block of \<open>handleReviewRequest\<close>
  does not run, and the handler updates the check run exactly twice: first to
  \<open>in_progress\<close>, then to \<open>completed\<close> with conclusion \<open>neutral\<close>, the text
  \<open>All good\<close> and the fixed summary \<open>Code review completed successfully\<close>; a
  comment on the pull request follows.
\<close>

theorem review_success_end_to_end:
  assumes "getOctokit G = Inr ()" and "find_pr_number G p = Inr prNumber"
    and "get_pr_data G = Inr ()"
    and "\<not> unset (LANGFLOW_ENDPOINT E)" and "\<not> unset (LANGFLOW_API_KEY E)"
    and "\<not> unset (LANGFLOW_REVIEW_FLOW_ID E)"
    and "1 \<le> retries cfg" and "fetch 1 = Inr r" and "status r = 200"
    and "json_result r = Inr (JObj [(''result'', JStr ''All good'')])"
  shows "handleReviewRequest E cfg h G fetch p =
           (None,
            [Checks_update (review_in_progress cfg h p), Jitter, Fetch 1,
             Checks_update (review_success_update p (JStr ''All good'')),
             Create_comment prNumber (review_comment h (JStr ''All good''))])
       \<and> map status_field (updates (snd (handleReviewRequest E cfg h G fetch p)))
           = [''in_progress'', ''completed'']
       \<and> map conclusion (updates (snd (handleReviewRequest E cfg h G fetch p)))
           = [None, Some ''neutral'']
       \<and> map output_text (updates (snd (handleReviewRequest E cfg h G fetch p)))
           = [output_text (review_in_progress cfg h p), Some (JStr ''All good'')]
       \<and> map summary (updates (snd (handleReviewRequest E cfg h G fetch p)))
           = [''Analyzing your code with Langflow agents...'',
              ''Code review completed successfully'']"
proof -
  have "ok r"
    using assms(9) by (simp add: ok_def)
  from triggerLangflow_flat_result [of E "LANGFLOW_REVIEW_FLOW_ID E" cfg fetch r "''All good''" h]
    assms(4-8,10) this
  have "triggerLangflow E cfg h fetch (LANGFLOW_REVIEW_FLOW_ID E) =
          (Success (JStr ''All good'') (JObj [(''result'', JStr ''All good'')]), [Jitter, Fetch 1])"
    by simp
  then have run: "handleReviewRequest E cfg h G fetch p =
           (None,
            [Checks_update (review_in_progress cfg h p), Jitter, Fetch 1,
             Checks_update (review_success_update p (JStr ''All good'')),
             Create_comment prNumber (review_comment h (JStr ''All good''))])"
    using assms(1,2,3) by (simp add: handleReviewRequest_def handleReviewRequest_try_def)
  show ?thesis
    unfolding run by (simp add: review_in_progress_def review_success_update_def)
qed

lemma sample_run_review:
  "handleReviewRequest sample_env default_config sample_host sample_github
      (every_attempt (sample_response 200 [] (Inr (JObj [(''result'', JStr ''All good'')]))))
      sample_payload =
     (None,
      [Checks_update (review_in_progress default_config sample_host sample_payload),
       Jitter, Fetch 1,
       Checks_update (review_success_update sample_payload (JStr ''All good'')),
       Create_comment 7 (review_comment sample_host (JStr ''All good''))])"
proof -
  have "ok (sample_response 200 [] (Inr (JObj [(''result'', JStr ''All good'')])))"
    by (simp add: ok_def sample_response_def)
  from triggerLangflow_flat_result [of sample_env "Some ''review-flow''" default_config
      "every_attempt (sample_response 200 [] (Inr (JObj [(''result'', JStr ''All good'')])))"
      "sample_response 200 [] (Inr (JObj [(''result'', JStr ''All good'')]))" "''All good''"
      sample_host] this
  have "triggerLangflow sample_env default_config sample_host
      (every_attempt (sample_response 200 [] (Inr (JObj [(''result'', JStr ''All good'')]))))
      (Some ''review-flow'') =
          (Success (JStr ''All good'') (JObj [(''result'', JStr ''All good'')]), [Jitter, Fetch 1])"
    by (simp add: sample_env_def default_config_def every_attempt_def sample_response_def)
  then show ?thesis
    by (simp add: handleReviewRequest_def handleReviewRequest_try_def sample_github_def
        sample_payload_def sample_env_def find_pr_number_def get_pr_data_def and_then_def)
qed

theorem review_success_end_to_end_witness:
  "map output_text (updates (snd (handleReviewRequest sample_env default_config sample_host
      sample_github
      (every_attempt (sample_response 200 [] (Inr (JObj [(''result'', JStr ''All good'')]))))
      sample_payload)))
   = [output_text (review_in_progress default_config sample_host sample_payload),
      Some (JStr ''All good'')]
   \<and> map conclusion (updates (snd (handleReviewRequest sample_env default_config sample_host
      sample_github
      (every_attempt (sample_response 200 [] (Inr (JObj [(''result'', JStr ''All good'')]))))
      sample_payload)))
   = [None, Some ''neutral'']"
proof -
  let ?r = "sample_response 200 [] (Inr (JObj [(''result'', JStr ''All good'')]))"
  have g: "getOctokit sample_github = Inr ()"
    "find_pr_number sample_github sample_payload = Inr 7"
    "get_pr_data sample_github = Inr ()"
    by (simp_all add: sample_github_def sample_payload_def find_pr_number_def get_pr_data_def
        and_then_def)
  have e: "\<not> unset (LANGFLOW_ENDPOINT sample_env)" "\<not> unset (LANGFLOW_API_KEY sample_env)"
    "\<not> unset (LANGFLOW_REVIEW_FLOW_ID sample_env)"
    by (simp_all add: sample_env_def)
  have f: "1 \<le> retries default_config" "every_attempt ?r 1 = Inr ?r" "status ?r = 200"
    "json_result ?r = Inr (JObj [(''result'', JStr ''All good'')])"
    by (simp_all add: default_config_def every_attempt_def sample_response_def)
  show ?thesis
    using review_success_end_to_end [of sample_github sample_payload 7 sample_env default_config
      "every_attempt ?r" ?r sample_host] g e f
    by (simp add: review_in_progress_def review_success_update_def)
qed

text \<open>
  C8, as stated, fails on the sample run: the summary of the completing update is the
  fixed one, not \<open>All good\<close>.
\<close>

theorem review_summary_counterexample:
  "map summary (updates (snd (handleReviewRequest sample_env default_config sample_host
      sample_github
      (every_attempt (sample_response 200 [] (Inr (JObj [(''result'', JStr ''All good'')]))))
      sample_payload)))
   = [''Analyzing your code with Langflow agents...'', ''Code review completed successfully'']
   \<and> ''Code review completed successfully'' \<noteq> ''All good''"
  by (simp add: sample_run_review review_in_progress_def review_success_update_def)

lemma str_includes_map:
  assumes "str_includes s p"
  shows "str_includes (map f s) (map f p)"
proof -
  obtain a b where "s = a @ p @ b"
    using assms by (auto simp: str_includes_iff)
  then have "map f s = map f a @ map f p @ map f b"
    by simp
  then show ?thesis
    unfolding str_includes_iff by blast
qed

lemma lower_not_ready: "toLowerCase ''not ready'' = ''not ready''"
  by (simp add: toLowerCase_def lower_char_def)

lemma not_ready_is_ready:
  assumes "str_includes s ''not ready''"
  shows "str_includes s ''ready''"
  using assms by (rule str_includes_trans) simp

lemma merge_run:
  assumes "getOctokit G = Inr ()" and "merge_pr_number G p = Inr prNumber"
    and "checks_update G (merge_in_progress p) = Inr ()"
    and "pulls_get G = Inr ()" and "issues_listComments G = Inr ()"
    and "fst (triggerLangflow E cfg h fetch (LANGFLOW_MERGE_CHECK_FLOW_ID E)) = Success (JStr m) d"
  shows "updates (snd (handleMergeCheck E cfg h G fetch p))
           = [merge_in_progress p, merge_success_update p m]"
proof -
  obtain evs where t: "triggerLangflow E cfg h fetch (LANGFLOW_MERGE_CHECK_FLOW_ID E)
      = (Success (JStr m) d, evs)"
    using assms(6) by (cases "triggerLangflow E cfg h fetch (LANGFLOW_MERGE_CHECK_FLOW_ID E)") simp
  have u: "updates evs = []"
    using updates_triggerLangflow [of E cfg h fetch "LANGFLOW_MERGE_CHECK_FLOW_ID E"] t by simp
  have "updates (snd (handleMergeCheck_try E cfg h G fetch p))
           = [merge_in_progress p, merge_success_update p m]"
    using assms(1-5) t u
    by (simp add: handleMergeCheck_try_def merge_finish_def and_then_def Let_def updates_append
        split: sum.splits)
  then show ?thesis
    by (cases "handleMergeCheck_try E cfg h G fetch p"; cases "fst (handleMergeCheck_try E cfg h G fetch p)")
       (simp_all add: handleMergeCheck_def)
qed

text \<open>
  C10. The merge check has its client and pull request, its first update and its
  reads succeed, and \<open>triggerLangflow\<close> returns a \<open>Success\<close> whose message is the
  string \<open>m\<close>. Then \<open>handleMergeCheck\<close> updates the check run twice, and the
  second update is \<open>completed\<close> with conclusion \<open>success\<close> exactly when \<open>m\<close> in
  lower case holds \<open>ready\<close>; otherwise the conclusion is \<open>neutral\<close> and the title
  says \<open>Not Ready to Merge\<close>. A message that holds \<open>not ready\<close>, in any
  capitalisation, holds \<open>ready\<close>, so it gets conclusion \<open>success\<close> and the title
  \<open>Ready to Merge!\<close>.
\<close>

theorem merge_conclusion_by_ready:
  assumes "getOctokit G = Inr ()" and "merge_pr_number G p = Inr prNumber"
    and "checks_update G (merge_in_progress p) = Inr ()"
    and "pulls_get G = Inr ()" and "issues_listComments G = Inr ()"
    and "fst (triggerLangflow E cfg h fetch (LANGFLOW_MERGE_CHECK_FLOW_ID E)) = Success (JStr m) d"
  shows "updates (snd (handleMergeCheck E cfg h G fetch p))
           = [merge_in_progress p, merge_success_update p m]
       \<and> status_field (merge_success_update p m) = ''completed''
       \<and> conclusion (merge_success_update p m)
           = Some (if str_includes (toLowerCase m) ''ready'' then ''success'' else ''neutral'')
       \<and> title (merge_success_update p m)
           = (if str_includes (toLowerCase m) ''ready'' then rocket @ '' Ready to Merge!''
              else warning_sign @ '' Not Ready to Merge'')
       \<and> (conclusion (merge_success_update p m) = Some ''success''
            \<longleftrightarrow> str_includes (toLowerCase m) ''ready'')
       \<and> (str_includes m ''not ready'' \<or> str_includes (toLowerCase m) ''not ready'' \<longrightarrow>
            conclusion (merge_success_update p m) = Some ''success''
            \<and> title (merge_success_update p m) = rocket @ '' Ready to Merge!'')"
proof -
  have "str_includes (toLowerCase m) ''ready''"
    if "str_includes m ''not ready'' \<or> str_includes (toLowerCase m) ''not ready''"
  proof -
    have "str_includes (toLowerCase m) ''not ready''"
      using that str_includes_map [of m "''not ready''" lower_char] lower_not_ready
      by (auto simp: toLowerCase_def)
    then show ?thesis by (rule not_ready_is_ready)
  qed
  then show ?thesis
    using merge_run [OF assms] by (auto simp: merge_success_update_def Let_def)
qed

theorem merge_conclusion_by_ready_witness:
  "map conclusion (updates (snd (handleMergeCheck sample_env default_config sample_host
      sample_github
      (every_attempt (sample_response 200 []
         (Inr (JObj [(''result'', JStr ''This PR is NOT READY to merge'')]))))
      sample_payload)))
   = [None, Some ''success'']
   \<and> map title (updates (snd (handleMergeCheck sample_env default_config sample_host
      sample_github
      (every_attempt (sample_response 200 []
         (Inr (JObj [(''result'', JStr ''This PR is NOT READY to merge'')]))))
      sample_payload)))
   = [arrows @ '' Checking Merge Readiness'', rocket @ '' Ready to Merge!'']"
proof -
  let ?m = "''This PR is NOT READY to merge''"
  let ?r = "sample_response 200 [] (Inr (JObj [(''result'', JStr ?m)]))"
  have g: "getOctokit sample_github = Inr ()"
    "merge_pr_number sample_github sample_payload = Inr 7"
    "checks_update sample_github (merge_in_progress sample_payload) = Inr ()"
    "pulls_get sample_github = Inr ()" "issues_listComments sample_github = Inr ()"
    by (simp_all add: sample_github_def sample_payload_def merge_pr_number_def)
  have "ok ?r"
    by (simp add: ok_def sample_response_def)
  then have "triggerLangflow sample_env default_config sample_host (every_attempt ?r)
      (LANGFLOW_MERGE_CHECK_FLOW_ID sample_env)
      = (Success (JStr ?m) (JObj [(''result'', JStr ?m)]), [Jitter, Fetch 1])"
    using triggerLangflow_flat_result [of sample_env "LANGFLOW_MERGE_CHECK_FLOW_ID sample_env"
        default_config "every_attempt ?r" ?r ?m sample_host]
    by (simp add: sample_env_def default_config_def every_attempt_def sample_response_def)
  then have t: "fst (triggerLangflow sample_env default_config sample_host (every_attempt ?r)
      (LANGFLOW_MERGE_CHECK_FLOW_ID sample_env)) = Success (JStr ?m) (JObj [(''result'', JStr ?m)])"
    by simp
  have low: "str_includes (toLowerCase ?m) ''not ready''"
    by code_simp
  have rdy: "str_includes (toLowerCase ?m) ''ready''"
    using low by (rule not_ready_is_ready)
  show ?thesis
    using merge_conclusion_by_ready [of sample_github sample_payload 7 sample_env default_config
        sample_host "every_attempt ?r" ?m "JObj [(''result'', JStr ?m)]"] g t low rdy
    by (simp add: merge_in_progress_def)
qed

end
